theory Spec2Isabelle
  imports Complex_Main "HOL-Library.Word" "HOL-Library.Monad_Syntax" "HOL-Library.Signed_Division"
begin

section \<open>Operation profile and query classification\<close>

text \<open>
  The embedding follows \<^verbatim>\<open>src/backend/tcop/postgres.c\<close>.  C \<^verbatim>\<open>int\<close> values that
  only ever hold small constants are modelled as \<^typ>\<open>int\<close>; a \<^verbatim>\<open>char *\<close> that may be
  \<^verbatim>\<open>NULL\<close> is a \<^typ>\<open>string option\<close>.
\<close>

definition NONE :: int where "NONE = 0"

text \<open>
  HW operation definition (lines 256-261).  The sixth macro of the block, \<^verbatim>\<open>FOREST\<close>,
  is given the value 6 at line 261 and is defined a second time, with the value 2, in
  the dataset block at line 303.  Both definitions precede all code of the file, so a
  compiler that accepts the redefinition uses the value 2 at every use of the macro:
  as the dataset code, and as the operation code that \<^verbatim>\<open>hw_ophashmap\<close> returns for
  \<^verbatim>\<open>madlib.forest_predict\<close> (line 585).  The value 6 is never used.
\<close>

definition LINREGR :: int where "LINREGR = 1"
definition LOGREGR :: int where "LOGREGR = 2"
definition SVM :: int where "SVM = 3"
definition MLP :: int where "MLP = 4"
definition TREE :: int where "TREE = 5"
definition FOREST :: int where "FOREST = 2"

text \<open>Query number definition (lines 286-296).\<close>

definition Q1 :: int where "Q1 = 0"
definition Q2 :: int where "Q2 = 1"
definition Q3 :: int where "Q3 = 2"
definition Q4 :: int where "Q4 = 3"
definition Q5 :: int where "Q5 = 4"
definition Q6 :: int where "Q6 = 5"
definition Q7 :: int where "Q7 = 6"
definition Q8 :: int where "Q8 = 7"
definition Q9 :: int where "Q9 = 8"
definition Q10 :: int where "Q10 = 9"
definition Q11 :: int where "Q11 = 10"


record operation_info =
  hw_support :: bool
  hw_operation :: int
  hw_query_num :: int
  data_table_name :: "string option"
  model_table_name :: "string option"
  model_col_len :: nat
  model_col_name :: "string list"
  data_col_len :: nat
  data_col_name :: "string list"
  id_col_name :: "string option"
  output_table_name :: "string option"
  filter_flag :: bool
  filter_operation :: int
  filter_table_name :: "string option"
  filter_col_name :: "string option"
  filter_value :: "string option"
  aggr_flag :: bool
  aggr_operation :: int
  aggr_table_name :: "string option"
  aggr_table_col :: "string option"

text \<open>
  \<^verbatim>\<open>get_query_num\<close> (lines 916-957).  The \<^verbatim>\<open>switch\<close> has the five cases
  \<^verbatim>\<open>LINREGR\<close>, \<^verbatim>\<open>LOGREGR\<close>, \<^verbatim>\<open>SVM\<close>, \<^verbatim>\<open>MLP\<close>, \<^verbatim>\<open>TREE\<close> and no default, so every
  other operation code leaves \<^verbatim>\<open>query_num\<close> at its initial value \<open>-1\<close>.  The
  operation code \<^verbatim>\<open>FOREST\<close> is the code of \<^verbatim>\<open>LOGREGR\<close> and takes that case.
\<close>

definition get_query_num :: "'a operation_info_scheme \<Rightarrow> int" where
  "get_query_num info =
     (if hw_support info then
        (if hw_operation info = LINREGR then
           (if filter_flag info \<and> aggr_flag info then Q4
            else if filter_flag info then Q2
            else if aggr_flag info then Q3
            else Q1)
         else if hw_operation info = LOGREGR then
           (if filter_flag info \<and> aggr_flag info then Q8
            else if filter_flag info then Q6
            else if aggr_flag info then Q7
            else Q5)
         else if hw_operation info = SVM then Q9
         else if hw_operation info = MLP then Q10
         else if hw_operation info = TREE then Q11
         else - 1)
      else - 1)"


section \<open>Query feature extractor\<close>

text \<open>Query cluster definition (lines 245-250).\<close>

definition SELECT :: int where "SELECT = 1"
definition FROM :: int where "FROM = 2"
definition WHERE :: int where "WHERE = 3"
definition GROUP_BY :: int where "GROUP_BY = 4"
definition ORDER_BY :: int where "ORDER_BY = 5"
definition AS :: int where "AS = 6"

text \<open>Aggregation and filtering operation definitions (lines 266-280).\<close>

definition COUNT :: int where "COUNT = 1"
definition MAX_AGGR :: int where "MAX_AGGR = 2"
definition MIN_AGGR :: int where "MIN_AGGR = 3"
definition AVG :: int where "AVG = 4"
definition SUM_AGGR :: int where "SUM_AGGR = 5"

definition LARGER :: int where "LARGER = 1"
definition LARGERSAME :: int where "LARGERSAME = 2"
definition SAME :: int where "SAME = 3"
definition SMALLER :: int where "SMALLER = 4"
definition SMALLERSAME :: int where "SMALLERSAME = 5"


text \<open>
  \<^verbatim>\<open>hw_strcmp\<close> (lines 538-551) walks \<^verbatim>\<open>str1\<close> up to its terminator or the first
  mismatch and returns 1 exactly when the characters at the stopping position agree.
  The end of a list stands for the terminating NUL.
\<close>

fun hw_strcmp :: "string \<Rightarrow> string \<Rightarrow> bool" where
  "hw_strcmp [] [] = True"
| "hw_strcmp [] (y # ys) = False"
| "hw_strcmp (x # xs) [] = False"
| "hw_strcmp (x # xs) (y # ys) = (if x \<noteq> y then False else hw_strcmp xs ys)"

definition hw_queryhashmap :: "string \<Rightarrow> int \<Rightarrow> int" where
  "hw_queryhashmap str query_cluster =
     (if hw_strcmp str ''SELECT'' then SELECT
      else if hw_strcmp str ''FROM'' then FROM
      else if hw_strcmp str ''WHERE'' then WHERE
      else if hw_strcmp str ''GROUP_BY'' then GROUP_BY
      else if hw_strcmp str ''ORDER_BY'' then ORDER_BY
      else if hw_strcmp str ''AS'' then AS
      else query_cluster)"

text \<open>
  \<^verbatim>\<open>hw_ophashmap\<close> (lines 572-586) has no final \<^verbatim>\<open>else\<close>: for a string that matches
  none of the six names control reaches the closing brace without a \<^verbatim>\<open>return\<close>.
  The value the caller then reads is not determined by the source; it is the
  parameter \<open>u\<close> of the model.
\<close>

definition hw_ophashmap :: "int \<Rightarrow> string \<Rightarrow> int" where
  "hw_ophashmap u str =
     (if hw_strcmp str ''madlib.linregr_predict'' then LINREGR
      else if hw_strcmp str ''madlib.logregr_predict_prob'' then LOGREGR
      else if hw_strcmp str ''madlib.svm_predict'' then SVM
      else if hw_strcmp str ''madlib.mlp_predict'' then MLP
      else if hw_strcmp str ''madlib.tree_predict'' then TREE
      else if hw_strcmp str ''madlib.forest_predict'' then FOREST
      else u)"

definition hw_aggrhashmap :: "string \<Rightarrow> int" where
  "hw_aggrhashmap str =
     (if hw_strcmp str ''COUNT'' then COUNT
      else if hw_strcmp str ''MAX'' then MAX_AGGR
      else if hw_strcmp str ''MIN'' then MIN_AGGR
      else if hw_strcmp str ''AVG'' then AVG
      else if hw_strcmp str ''SUM'' then SUM_AGGR
      else 0)"

definition hw_filterhashmap :: "string \<Rightarrow> int" where
  "hw_filterhashmap str =
     (if hw_strcmp str ''>'' then LARGER
      else if hw_strcmp str ''>='' then LARGERSAME
      else if hw_strcmp str ''=='' then SAME
      else if hw_strcmp str ''<'' then SMALLER
      else if hw_strcmp str ''<='' then SMALLERSAME
      else 0)"

text \<open>\<^verbatim>\<open>init_operation_info\<close> (lines 622-650).\<close>

definition init_operation_info :: operation_info where
  "init_operation_info =
     \<lparr> hw_support = False, hw_operation = NONE, hw_query_num = - 1,
       data_table_name = None, model_table_name = None,
       model_col_len = 0, model_col_name = [],
       data_col_len = 0, data_col_name = [],
       id_col_name = None, output_table_name = None,
       filter_flag = False, filter_operation = NONE,
       filter_table_name = None, filter_col_name = None, filter_value = None,
       aggr_flag = False, aggr_operation = NONE,
       aggr_table_name = None, aggr_table_col = None \<rparr>"

text \<open>
  The successive results of \<^verbatim>\<open>strtok\<close> on one string: the maximal runs of characters
  that are not delimiters, in order.  \<open>cur\<close> is the token being collected.
\<close>

fun strtok_acc :: "char list \<Rightarrow> string \<Rightarrow> string \<Rightarrow> string list" where
  "strtok_acc ds cur [] = (if cur = [] then [] else [cur])"
| "strtok_acc ds cur (c # cs) =
     (if c \<in> set ds
      then (if cur = [] then strtok_acc ds [] cs else cur # strtok_acc ds [] cs)
      else strtok_acc ds (cur @ [c]) cs)"

definition strtok_list :: "char list \<Rightarrow> string \<Rightarrow> string list" where
  "strtok_list ds s = strtok_acc ds [] s"

text \<open>
  The tokenizer of \<^verbatim>\<open>sw_stack_for_hw\<close> (lines 2222-2232): \<^verbatim>\<open>strtok\<close> with the
  delimiters blank, comma, parentheses, brackets, semicolon, newline and quote.  Each
  token is copied with \<^verbatim>\<open>strcpy\<close> into a block of 25 bytes of its own (lines
  2228-2229); a token of 25 or more characters does not fit with its terminating NUL,
  and the write past the end of the block has no defined result: it is the failure
  \<open>None\<close> of the model.
\<close>

definition tokenize :: "string \<Rightarrow> string list option" where
  "tokenize query_string =
     (let word_array =
            strtok_list [CHR '' '', CHR '','', CHR ''('', CHR '')'', CHR ''['', CHR '']'',
                         CHR '';'', CHR 0x0A, CHR 0x27] query_string
      in if list_all (\<lambda>word_tmp. length word_tmp < 25) word_array then Some word_array else None)"

text \<open>
  A read of \<^verbatim>\<open>word_array[k]\<close>.  The source performs no bounds check; a read at an
  index \<open>k \<ge> word_size\<close> has no defined result and is the failure \<open>None\<close> of the
  model, which every caller propagates.
\<close>

definition word_at :: "string list \<Rightarrow> nat \<Rightarrow> string option" where
  "word_at word_array k = (if k < length word_array then Some (word_array ! k) else None)"

text \<open>
  \<^verbatim>\<open>p = malloc(sizeof(char) * MAX_NAME_LEN); strcpy(p, src)\<close> with \<^verbatim>\<open>MAX_NAME_LEN\<close> = 30
  (line 239): the copy writes the characters of \<open>src\<close> and the terminating NUL.  A
  string of 30 or more characters does not fit the block; the write past its end has
  no defined result and is the failure \<open>None\<close> of the model.
\<close>

definition MAX_NAME_LEN :: nat where "MAX_NAME_LEN = 30"

definition strcpy_name :: "string \<Rightarrow> string option" where
  "strcpy_name src = (if length src < MAX_NAME_LEN then Some src else None)"

text \<open>The loop that copies the \<open>arr_len\<close> names of a column list, one block each.\<close>

fun strcpy_names :: "string list \<Rightarrow> string list option" where
  "strcpy_names [] = Some []"
| "strcpy_names (w # ws) =
     do {
       name \<leftarrow> strcpy_name w;
       names \<leftarrow> strcpy_names ws;
       Some (name # names)
     }"

text \<open>
  The scan \<^verbatim>\<open>while (!hw_strcmp(w[i+1+arr_len], "FROM") & !hw_strcmp(w[i+1+arr_len], "ARRAY")) arr_len++\<close>
  over the words from index \<open>i + 1\<close> on; it runs off the array when neither word follows.
\<close>

fun arr_scan :: "string list \<Rightarrow> nat option" where
  "arr_scan [] = None"
| "arr_scan (w # ws) =
     (if \<not> hw_strcmp w ''FROM'' \<and> \<not> hw_strcmp w ''ARRAY''
      then map_option Suc (arr_scan ws) else Some 0)"

text \<open>
  The \<^verbatim>\<open>strtok(..., ".")\<close> loops of the aggregate and filter branches, run on a copy
  of the word in a block of \<^verbatim>\<open>MAX_NAME_LEN\<close> bytes: the first piece is the table
  name, the second the column name, a third piece stops the loop.  Each piece is
  copied into a block of \<^verbatim>\<open>MAX_NAME_LEN\<close> bytes of its own.
\<close>

definition first_piece :: "string \<Rightarrow> string option" where
  "first_piece w = (case strtok_list [CHR ''.''] w of [] \<Rightarrow> None | a # _ \<Rightarrow> Some a)"

definition second_piece :: "string \<Rightarrow> string option" where
  "second_piece w = (case strtok_list [CHR ''.''] w of a # b # _ \<Rightarrow> Some b | _ \<Rightarrow> None)"

text \<open>
  The two names that such a loop stores, given the names stored before: \<open>None\<close> when
  the word or one of its pieces does not fit its block.
\<close>

definition split_name ::
  "string \<Rightarrow> string option \<Rightarrow> string option \<Rightarrow> (string option \<times> string option) option" where
  "split_name w table_name col_name =
     do {
       copy \<leftarrow> strcpy_name w;
       table_name' \<leftarrow> (case first_piece copy of None \<Rightarrow> Some table_name
                        | Some a \<Rightarrow> map_option Some (strcpy_name a));
       col_name' \<leftarrow> (case second_piece copy of None \<Rightarrow> Some col_name
                      | Some b \<Rightarrow> map_option Some (strcpy_name b));
       Some (table_name', col_name')
     }"


text \<open>
  One column list of a regression call (lines 740-765 for the model side, repeated at
  lines 767-790 for the data side): an \<^verbatim>\<open>ARRAY\<close> literal, a single \<^verbatim>\<open>coef\<close> reference,
  or neither.  The result is the list found (its length and the copies of its names),
  if any, and the index at which the scan continues.
\<close>

definition col_clause :: "string list \<Rightarrow> nat \<Rightarrow> ((nat \<times> string list) option \<times> nat) option" where
  "col_clause word_array i =
     do {
       w \<leftarrow> word_at word_array i;
       if hw_strcmp w ''ARRAY'' then
         do {
           arr_len \<leftarrow> arr_scan (drop (i + 1) word_array);
           names \<leftarrow> strcpy_names (take arr_len (drop (i + 1) word_array));
           Some (Some (arr_len, names), i + (1 + arr_len))
         }
       else if hw_strcmp w ''coef'' then
         do {
           name \<leftarrow> strcpy_name w;
           Some (Some (1, [name]), i + 1)
         }
       else Some (None, i)
     }"

text \<open>
  The outcome of one pass through the body of the \<^verbatim>\<open>for\<close> loop of
  \<^verbatim>\<open>extract_operation_info\<close>: either the function returns from inside the loop, or
  the pass reaches the bottom of the body with a new token index and cluster.
\<close>

datatype step = Return operation_info | Continue nat int operation_info

text \<open>\<^verbatim>\<open>case SELECT\<close> (lines 723-849).\<close>

definition select_case :: "int \<Rightarrow> string list \<Rightarrow> nat \<Rightarrow> int \<Rightarrow> operation_info \<Rightarrow> step option" where
  "select_case u word_array i query_cluster info =
     do {
       w1 \<leftarrow> word_at word_array (i + 1);
       let query_check = hw_ophashmap u w1;
       if query_check \<noteq> NONE then
         (let info = info\<lparr>hw_support := True, hw_operation := query_check\<rparr> in
          if query_check = LINREGR \<or> query_check = LOGREGR then
            do {
              (m, i1) \<leftarrow> col_clause word_array (i + 2);
              let info = (case m of None \<Rightarrow> info
                          | Some (n, names) \<Rightarrow> info\<lparr>model_col_len := n, model_col_name := names\<rparr>);
              (d, i2) \<leftarrow> col_clause word_array i1;
              let info = (case d of None \<Rightarrow> info
                          | Some (n, names) \<Rightarrow> info\<lparr>data_col_len := n, data_col_name := names\<rparr>);
              Some (Continue i2 query_cluster info)
            }
          else if query_check = SVM \<or> query_check = MLP \<or> query_check = TREE then
            do {
              w2 \<leftarrow> word_at word_array (i + 2);
              model_table \<leftarrow> strcpy_name w2;
              w3 \<leftarrow> word_at word_array (i + 3);
              data_table \<leftarrow> strcpy_name w3;
              let info = info\<lparr>model_table_name := Some model_table,
                                data_table_name := Some data_table\<rparr>;
              info \<leftarrow>
                (if query_check = SVM \<or> query_check = MLP then
                   do {
                     w4 \<leftarrow> word_at word_array (i + 4);
                     id_col \<leftarrow> strcpy_name w4;
                     w5 \<leftarrow> word_at word_array (i + 5);
                     output_table \<leftarrow> strcpy_name w5;
                     Some (info\<lparr>id_col_name := Some id_col, output_table_name := Some output_table\<rparr>)
                   }
                 else
                   do {
                     w4 \<leftarrow> word_at word_array (i + 4);
                     output_table \<leftarrow> strcpy_name w4;
                     Some (info\<lparr>output_table_name := Some output_table\<rparr>)
                   });
              Some (Continue (if query_check = MLP then i + 6 + 1 else i + 6) query_cluster info)
            }
          else Some (Continue (i + 1) query_cluster info))
       else
         (let query_check = hw_aggrhashmap w1 in
          if query_check \<noteq> 0 then
            do {
              w2 \<leftarrow> word_at word_array (i + 2);
              (table_name, table_col) \<leftarrow> split_name w2 (aggr_table_name info) (aggr_table_col info);
              Some (Continue (i + 3) query_cluster
                (info\<lparr>aggr_flag := True, aggr_operation := query_check,
                      aggr_table_name := table_name, aggr_table_col := table_col\<rparr>))
            }
          else Some (Return (info\<lparr>hw_support := False\<rparr>)))
     }"

text \<open>\<^verbatim>\<open>case FROM\<close> (lines 850-864).\<close>

definition from_case :: "string list \<Rightarrow> nat \<Rightarrow> int \<Rightarrow> operation_info \<Rightarrow> step option" where
  "from_case word_array i query_cluster info =
     (if hw_support info \<and> (hw_operation info = LINREGR \<or> hw_operation info = LOGREGR) then
        do {
          w1 \<leftarrow> word_at word_array (i + 1);
          model_table \<leftarrow> strcpy_name w1;
          w2 \<leftarrow> word_at word_array (i + 2);
          data_table \<leftarrow> strcpy_name w2;
          Some (Continue (i + 3) query_cluster
                  (info\<lparr>model_table_name := Some model_table, data_table_name := Some data_table\<rparr>))
        }
      else Some (Continue (i + 1) query_cluster info))"

text \<open>
  \<^verbatim>\<open>case WHERE\<close> (lines 865-895).  \<open>filter_value\<close> holds the token handed to
  \<^verbatim>\<open>atof\<close>; the conversion itself is not modelled.
\<close>

definition where_case :: "string list \<Rightarrow> nat \<Rightarrow> int \<Rightarrow> operation_info \<Rightarrow> step option" where
  "where_case word_array i query_cluster info =
     do {
       w1 \<leftarrow> word_at word_array (i + 1);
       (table_name, col_name) \<leftarrow> split_name w1 (filter_table_name info) (filter_col_name info);
       w2 \<leftarrow> word_at word_array (i + 2);
       w3 \<leftarrow> word_at word_array (i + 3);
       Some (Continue (i + 4) query_cluster
         (info\<lparr>filter_flag := True,
               filter_table_name := table_name, filter_col_name := col_name,
               filter_operation := hw_filterhashmap w2,
               filter_value := Some w3\<rparr>))
     }"

text \<open>The body of the loop up to, and not including, \<^verbatim>\<open>inhib++\<close> (lines 713-907).\<close>

definition extract_step :: "int \<Rightarrow> string list \<Rightarrow> nat \<Rightarrow> int \<Rightarrow> operation_info \<Rightarrow> step option" where
  "extract_step u word_array i query_cluster0 info =
     do {
       w \<leftarrow> word_at word_array i;
       let query_cluster = hw_queryhashmap w query_cluster0;
       if query_cluster = NONE then
         (if i = 0 then Some (Return (info\<lparr>hw_support := False\<rparr>))
          else Some (Continue (i + 1) query_cluster (info\<lparr>hw_support := False\<rparr>)))
       else if query_cluster = SELECT then select_case u word_array i query_cluster info
       else if query_cluster = FROM then from_case word_array i query_cluster info
       else if query_cluster = WHERE then where_case word_array i query_cluster info
       else if query_cluster = GROUP_BY then
         Some (Continue i query_cluster (info\<lparr>hw_support := False\<rparr>))
       else if query_cluster = ORDER_BY then
         Some (Continue i query_cluster (info\<lparr>hw_support := False\<rparr>))
       else Some (Continue (i + 1) query_cluster info)
     }"

text \<open>
  The loop \<^verbatim>\<open>for (int i = 0 ; i < word_size ; )\<close> with its exit
  \<^verbatim>\<open>inhib++; if (inhib > 20) break;\<close> (lines 712-912).
\<close>

function extract_loop ::
  "int \<Rightarrow> string list \<Rightarrow> nat \<Rightarrow> int \<Rightarrow> nat \<Rightarrow> operation_info \<Rightarrow> operation_info option" where
  "extract_loop u word_array i query_cluster inhib info =
     (if i < length word_array then
        (case extract_step u word_array i query_cluster info of
           None \<Rightarrow> None
         | Some (Return info') \<Rightarrow> Some info'
         | Some (Continue i' query_cluster' info') \<Rightarrow>
             (if inhib + 1 > 20 then Some info'
              else extract_loop u word_array i' query_cluster' (inhib + 1) info'))
      else Some info)"
  by pat_completeness auto
termination
  by (relation "measure (\<lambda>(u, word_array, i, query_cluster, inhib, info). 21 - inhib)") auto

definition extract_operation_info :: "int \<Rightarrow> string list \<Rightarrow> operation_info \<Rightarrow> operation_info option" where
  "extract_operation_info u word_array info = extract_loop u word_array 0 0 0 info"

text \<open>
  The same loop with a budget of passes through its body: the outer \<open>None\<close> means that
  the budget \<open>n\<close> was used up before the loop was left.
\<close>

fun extract_fuel ::
  "nat \<Rightarrow> int \<Rightarrow> string list \<Rightarrow> nat \<Rightarrow> int \<Rightarrow> nat \<Rightarrow> operation_info \<Rightarrow> operation_info option option" where
  "extract_fuel n u word_array i query_cluster inhib info =
     (if i < length word_array then
        (case n of
           0 \<Rightarrow> None
         | Suc m \<Rightarrow>
            (case extract_step u word_array i query_cluster info of
               None \<Rightarrow> Some None
             | Some (Return info') \<Rightarrow> Some (Some info')
             | Some (Continue i' query_cluster' info') \<Rightarrow>
                 (if inhib + 1 > 20 then Some (Some info')
                  else extract_fuel m u word_array i' query_cluster' (inhib + 1) info')))
      else Some (Some info))"

section \<open>Table statistics probe\<close>

text \<open>
  Values of type \<^verbatim>\<open>double\<close> are modelled as \<^typ>\<open>real\<close>: rounding, infinities and NaN
  are outside the model.  The quantities of \<^verbatim>\<open>get_data_num\<close> are whole numbers far
  below \<open>2^53\<close> (a segment file holds at most \<open>2^30\<close> bytes and a page at most
  \<open>2^16\<close> items), which doubles represent exactly.
\<close>

text \<open>
  What \<^verbatim>\<open>stat\<close> reports for the first segment file of the main fork: the file size,
  the error \<^verbatim>\<open>ENOENT\<close> (the source then goes on with the \<^verbatim>\<open>st_size\<close> field it never
  wrote, whose content is carried by the constructor), or another error.
\<close>

datatype stat_result = StatOk int | StatENOENT int | StatError

datatype probe_error = RelationNotOpened | CouldNotStatFile | BlockOutOfRange

text \<open>
  \<^verbatim>\<open>ReadBufferExtended(rel, MAIN_FORKNUM, cnt, ...)\<close> followed by
  \<^verbatim>\<open>PageGetMaxOffsetNumber\<close>: \<open>pages\<close> maps a block number of the main fork to the
  maximum offset number of that page, and is \<open>None\<close> where the block cannot be read.
\<close>

definition read_max_offset :: "(int \<Rightarrow> nat option) \<Rightarrow> int \<Rightarrow> probe_error + nat" where
  "read_max_offset pages cnt = (case pages cnt of None \<Rightarrow> Inl BlockOutOfRange | Some n \<Rightarrow> Inr n)"

text \<open>
  \<^verbatim>\<open>get_data_num\<close> (lines 1802-1840).  \<open>opened\<close> tells whether \<^verbatim>\<open>try_relation_open\<close>
  returned a relation (the source dereferences the result either way).  The result is
  the returned estimate together with the value stored through \<^verbatim>\<open>page_num\<close>.
\<close>

definition get_data_num :: "bool \<Rightarrow> stat_result \<Rightarrow> (int \<Rightarrow> nat option) \<Rightarrow> probe_error + (real \<times> real)" where
  "get_data_num opened st pages =
     (if \<not> opened then Inl RelationNotOpened
      else
        (case st of
           StatError \<Rightarrow> Inl CouldNotStatFile
         | _ \<Rightarrow>
            (let st_size = (case st of StatOk n \<Rightarrow> n | StatENOENT n \<Rightarrow> n | StatError \<Rightarrow> 0);
                 total_page_num = real_of_int (st_size sdiv 0x2000)
             in case read_max_offset pages 0 of
                  Inl e \<Rightarrow> Inl e
                | Inr first_page_size \<Rightarrow>
                    if total_page_num = 1 then Inr (real first_page_size, total_page_num)
                    else
                      (case read_max_offset pages (st_size sdiv 0x2000 - 1) of
                         Inl e \<Rightarrow> Inl e
                       | Inr last_page_size \<Rightarrow>
                           Inr (real first_page_size * (total_page_num - 1) + real last_page_size,
                                total_page_num)))))"

section \<open>Hardware cost estimator\<close>

text \<open>
  \<^verbatim>\<open>size_t\<close> is the 64-bit unsigned type of the target: \<^typ>\<open>64 word\<close>, whose
  \<open>+\<close>, \<open>-\<close> and \<open>*\<close> wrap around and whose \<open>div\<close> and \<open>\<le>\<close> are unsigned.
\<close>

type_synonym size_t = "64 word"

text \<open>Dataset definition (lines 302-305); \<^verbatim>\<open>FOREST\<close> is defined above.\<close>

definition HIGGS :: int where "HIGGS = 1"
definition WILT :: int where "WILT = 4"
definition HABERMAN :: int where "HABERMAN = 8"

text \<open>Hardware configuration (lines 311-394).\<close>

definition PAGE_SIZE :: size_t where "PAGE_SIZE = 8192"
definition UNIT_DATABASE_SIZE :: size_t where "UNIT_DATABASE_SIZE = 1073741824"

definition USER_TOTAL_LUT :: size_t where "USER_TOTAL_LUT = 320000"
definition USER_TOTAL_FF :: size_t where "USER_TOTAL_FF = 862374"
definition USER_TOTAL_URAM :: size_t where "USER_TOTAL_URAM = 120"
definition USER_TOTAL_BRAM :: size_t where "USER_TOTAL_BRAM = 673"
definition USER_TOTAL_DSP :: size_t where "USER_TOTAL_DSP = 1959"
definition USER_CLOCK :: size_t where "USER_CLOCK = 170"

definition HOST_ADDRESSMAP_LATENCY :: real where "HOST_ADDRESSMAP_LATENCY = 0.44"
definition HOST_SETKERNEL_LATENCY :: real where "HOST_SETKERNEL_LATENCY = 0.08"
definition HOST_CREATEBUF_LATENCY_0 :: real where "HOST_CREATEBUF_LATENCY_0 = 56.415"
definition HOST_CREATEBUF_LATENCY_1 :: real where "HOST_CREATEBUF_LATENCY_1 = 12.845"
definition HOST_CREATEBUF_LATENCY_2 :: real where "HOST_CREATEBUF_LATENCY_2 = 4.085"
definition HOST_CREATEBUF_LATENCY_3 :: real where "HOST_CREATEBUF_LATENCY_3 = 3.095"
definition HOST_CREATEBUF_LATENCY_4 :: real where "HOST_CREATEBUF_LATENCY_4 = 2.842"

definition SMARTSSD_CORE_VAR_LUT :: size_t where "SMARTSSD_CORE_VAR_LUT = 105998"
definition SMARTSSD_CORE_VAR_FF :: size_t where "SMARTSSD_CORE_VAR_FF = 92258"
definition SMARTSSD_CORE_VAR_URAM :: size_t where "SMARTSSD_CORE_VAR_URAM = 32"
definition SMARTSSD_CORE_VAR_BRAM :: size_t where "SMARTSSD_CORE_VAR_BRAM = 15"
definition SMARTSSD_CORE_VAR_DSP :: size_t where "SMARTSSD_CORE_VAR_DSP = 342"

definition SMARTSSD_CORE_CONST_LUT :: size_t where "SMARTSSD_CORE_CONST_LUT = 10708"
definition SMARTSSD_CORE_CONST_FF :: size_t where "SMARTSSD_CORE_CONST_FF = 9750"
definition SMARTSSD_CORE_CONST_URAM :: size_t where "SMARTSSD_CORE_CONST_URAM = 0"
definition SMARTSSD_CORE_CONST_BRAM :: size_t where "SMARTSSD_CORE_CONST_BRAM = 22"
definition SMARTSSD_CORE_CONST_DSP :: size_t where "SMARTSSD_CORE_CONST_DSP = 10"

definition SMARTSSD_DATABASE_SIZE_STD_0 :: size_t where "SMARTSSD_DATABASE_SIZE_STD_0 = 536870912"
definition SMARTSSD_DATABASE_SIZE_STD_1 :: size_t where "SMARTSSD_DATABASE_SIZE_STD_1 = 107380736"
definition SMARTSSD_DATABASE_SIZE_STD_2 :: size_t where "SMARTSSD_DATABASE_SIZE_STD_2 = 10731520"
definition SMARTSSD_DATABASE_SIZE_STD_3 :: size_t where "SMARTSSD_DATABASE_SIZE_STD_3 = 1064960"
definition SMARTSSD_DATABASE_SIZE_STD_4 :: size_t where "SMARTSSD_DATABASE_SIZE_STD_4 = 98304"

definition SMARTSSD_SSD2FPGA_EFFBW_0 :: real where "SMARTSSD_SSD2FPGA_EFFBW_0 = 3489660928"
definition SMARTSSD_SSD2FPGA_EFFBW_1 :: real where "SMARTSSD_SSD2FPGA_EFFBW_1 = 3328599654.4"
definition SMARTSSD_SSD2FPGA_EFFBW_2 :: real where "SMARTSSD_SSD2FPGA_EFFBW_2 = 2641404887.04"
definition SMARTSSD_SSD2FPGA_EFFBW_3 :: real where "SMARTSSD_SSD2FPGA_EFFBW_3 = 1181116006.4"
definition SMARTSSD_SSD2FPGA_EFFBW_4 :: real where "SMARTSSD_SSD2FPGA_EFFBW_4 = 493921239.04"

definition SMARTSSD_OUTBUF_SIZE_STD_0 :: size_t where "SMARTSSD_OUTBUF_SIZE_STD_0 = 264240"
definition SMARTSSD_OUTBUF_SIZE_STD_1 :: size_t where "SMARTSSD_OUTBUF_SIZE_STD_1 = 24576"

definition SMARTSSD_FPGA2HOST_EFFBW_0 :: real where "SMARTSSD_FPGA2HOST_EFFBW_0 = 934155386.88"
definition SMARTSSD_FPGA2HOST_EFFBW_1 :: real where "SMARTSSD_FPGA2HOST_EFFBW_1 = 311385128.96"

text \<open>
  Conversions between \<^verbatim>\<open>double\<close> and the integer types: a \<^verbatim>\<open>size_t\<close> read as a double,
  and a double cut towards zero as the casts \<^verbatim>\<open>(long long)\<close> and \<^verbatim>\<open>(size_t)\<close> do
  (a cast of a value outside the target type has no defined result in C; here the
  integer is reduced modulo \<open>2^64\<close>).
\<close>

definition to_double :: "size_t \<Rightarrow> real" where
  "to_double w = real (unat w)"

definition c_trunc :: "real \<Rightarrow> int" where
  "c_trunc x = (if 0 \<le> x then \<lfloor>x\<rfloor> else \<lceil>x\<rceil>)"

text \<open>
  The body of \<^verbatim>\<open>get_hw_expectation_time\<close> (lines 1843-2213), one definition for each
  local variable that enters the result.  A loop \<^verbatim>\<open>for(int i=0; i<host_iteration+1; i++)\<close>
  is a \<open>fold\<close> over \<open>[0..<unat (host_iteration + 1)]\<close>.  The three bandwidth factors
  (lines 1878-1884) do not enter the result and are left out.
\<close>

definition user_corenum :: size_t where
  "user_corenum =
     (let user_core_lut = USER_TOTAL_LUT - SMARTSSD_CORE_CONST_LUT;
          user_core_ff = USER_TOTAL_FF - SMARTSSD_CORE_CONST_FF;
          user_core_uram = USER_TOTAL_URAM - SMARTSSD_CORE_CONST_URAM;
          user_core_bram = USER_TOTAL_BRAM - SMARTSSD_CORE_CONST_BRAM;
          user_core_dsp = USER_TOTAL_DSP - SMARTSSD_CORE_CONST_DSP;
          user_corenum_resource =
            [user_core_lut div SMARTSSD_CORE_VAR_LUT,
             user_core_ff div SMARTSSD_CORE_VAR_FF,
             user_core_uram div SMARTSSD_CORE_VAR_URAM,
             user_core_bram div SMARTSSD_CORE_VAR_BRAM,
             user_core_dsp div SMARTSSD_CORE_VAR_DSP]
      in fold (\<lambda>i corenum. if corenum \<ge> user_corenum_resource ! i
                               then user_corenum_resource ! i else corenum)
              [1..<5] (user_corenum_resource ! 0))"

definition user_database_size :: "real \<Rightarrow> size_t" where
  "user_database_size user_pagenum = word_of_int ((c_trunc user_pagenum + 1) * 8 * 1024)"

definition host_iteration :: "real \<Rightarrow> size_t" where
  "host_iteration user_pagenum = user_database_size user_pagenum div (UNIT_DATABASE_SIZE * 2)"

definition page_iteration :: "real \<Rightarrow> size_t" where
  "page_iteration user_pagenum =
     (user_database_size user_pagenum - host_iteration user_pagenum * UNIT_DATABASE_SIZE * 2)
       div PAGE_SIZE"

definition host_total_addressmap_latency :: "real \<Rightarrow> real" where
  "host_total_addressmap_latency user_pagenum =
     HOST_ADDRESSMAP_LATENCY * to_double (host_iteration user_pagenum + 1)"

definition host_total_setkernel_latency :: "real \<Rightarrow> real" where
  "host_total_setkernel_latency user_pagenum =
     HOST_SETKERNEL_LATENCY * to_double (host_iteration user_pagenum + 1)"

definition user_lastdatabase_size :: "real \<Rightarrow> size_t" where
  "user_lastdatabase_size user_pagenum =
     user_database_size user_pagenum - host_iteration user_pagenum * UNIT_DATABASE_SIZE * 2"

definition host_createbuffer_latency :: "real \<Rightarrow> real" where
  "host_createbuffer_latency user_pagenum =
     (let sz = user_lastdatabase_size user_pagenum in
      if sz \<le> SMARTSSD_DATABASE_SIZE_STD_4 then HOST_CREATEBUF_LATENCY_4
      else if sz > SMARTSSD_DATABASE_SIZE_STD_4 \<and> sz \<le> SMARTSSD_DATABASE_SIZE_STD_3
        then HOST_CREATEBUF_LATENCY_4 * to_double sz / to_double SMARTSSD_DATABASE_SIZE_STD_4
      else if sz > SMARTSSD_DATABASE_SIZE_STD_3 \<and> sz \<le> SMARTSSD_DATABASE_SIZE_STD_2
        then HOST_CREATEBUF_LATENCY_3 * to_double sz / to_double SMARTSSD_DATABASE_SIZE_STD_3
      else if sz > SMARTSSD_DATABASE_SIZE_STD_2 \<and> sz \<le> SMARTSSD_DATABASE_SIZE_STD_1
        then HOST_CREATEBUF_LATENCY_2 * to_double sz / to_double SMARTSSD_DATABASE_SIZE_STD_2
      else if sz > SMARTSSD_DATABASE_SIZE_STD_1 \<and> sz \<le> SMARTSSD_DATABASE_SIZE_STD_0
        then HOST_CREATEBUF_LATENCY_1 * to_double sz / to_double SMARTSSD_DATABASE_SIZE_STD_1
      else HOST_CREATEBUF_LATENCY_0 * to_double sz / to_double SMARTSSD_DATABASE_SIZE_STD_0)"

definition host_total_createbuffer_latency :: "real \<Rightarrow> real" where
  "host_total_createbuffer_latency user_pagenum =
     (let hi = host_iteration user_pagenum in
      fold (\<lambda>i total.
              if i = unat hi \<and> hi \<noteq> 0 then total + host_createbuffer_latency user_pagenum + 100
              else if i = unat hi \<and> hi = 0 then total + host_createbuffer_latency user_pagenum
              else total + 100)
           [0..<unat (hi + 1)]
           (to_double hi * HOST_CREATEBUF_LATENCY_0 * to_double UNIT_DATABASE_SIZE * 2
              / to_double SMARTSSD_DATABASE_SIZE_STD_0))"

definition user_ssd2fpga_effbw :: "real \<Rightarrow> real" where
  "user_ssd2fpga_effbw user_pagenum =
     (let sz = user_lastdatabase_size user_pagenum in
      if sz \<le> SMARTSSD_DATABASE_SIZE_STD_4 then SMARTSSD_SSD2FPGA_EFFBW_4
      else if sz > SMARTSSD_DATABASE_SIZE_STD_4 \<and> sz \<le> SMARTSSD_DATABASE_SIZE_STD_3
        then SMARTSSD_SSD2FPGA_EFFBW_4 * to_double sz / to_double SMARTSSD_DATABASE_SIZE_STD_4
      else if sz > SMARTSSD_DATABASE_SIZE_STD_3 \<and> sz \<le> SMARTSSD_DATABASE_SIZE_STD_2
        then SMARTSSD_SSD2FPGA_EFFBW_3 * to_double sz / to_double SMARTSSD_DATABASE_SIZE_STD_3
      else if sz > SMARTSSD_DATABASE_SIZE_STD_2 \<and> sz \<le> SMARTSSD_DATABASE_SIZE_STD_1
        then SMARTSSD_SSD2FPGA_EFFBW_2 * to_double sz / to_double SMARTSSD_DATABASE_SIZE_STD_2
      else if sz > SMARTSSD_DATABASE_SIZE_STD_1 \<and> sz \<le> SMARTSSD_DATABASE_SIZE_STD_0
        then SMARTSSD_SSD2FPGA_EFFBW_1 * to_double sz / to_double SMARTSSD_DATABASE_SIZE_STD_1
      else SMARTSSD_SSD2FPGA_EFFBW_0)"

definition host_total_ssd2fpga_latency :: "real \<Rightarrow> real" where
  "host_total_ssd2fpga_latency user_pagenum =
     (let hi = host_iteration user_pagenum in
      fold (\<lambda>i total.
              if i = unat hi
              then total + (to_double (user_lastdatabase_size user_pagenum)
                              / user_ssd2fpga_effbw user_pagenum) * 1000
              else total + (to_double UNIT_DATABASE_SIZE * 2 / SMARTSSD_SSD2FPGA_EFFBW_0) * 1000)
           [0..<unat (hi + 1)] 0)"

text \<open>The test \<^verbatim>\<open>user_query == Q3 || user_query == Q4 || user_query == Q7 || user_query == Q8\<close>.\<close>

definition aggregate_query :: "int \<Rightarrow> bool" where
  "aggregate_query user_query \<longleftrightarrow>
     user_query = Q3 \<or> user_query = Q4 \<or> user_query = Q7 \<or> user_query = Q8"

definition user_outbuffer_size :: "int \<Rightarrow> real \<Rightarrow> size_t" where
  "user_outbuffer_size user_query user_pagenum =
     (if aggregate_query user_query then 4096
      else word_of_int (c_trunc
             ((user_pagenum - to_double (host_iteration user_pagenum * 131072 * 2)) * 4096 / 2)))"

definition user_fpga2host_effbw :: "int \<Rightarrow> real \<Rightarrow> real" where
  "user_fpga2host_effbw user_query user_pagenum =
     (let sz = user_outbuffer_size user_query user_pagenum in
      if sz \<le> SMARTSSD_OUTBUF_SIZE_STD_1 then SMARTSSD_FPGA2HOST_EFFBW_1
      else if sz > SMARTSSD_OUTBUF_SIZE_STD_1 \<and> sz \<le> SMARTSSD_OUTBUF_SIZE_STD_0
        then SMARTSSD_FPGA2HOST_EFFBW_1 * to_double sz / to_double SMARTSSD_OUTBUF_SIZE_STD_1
      else SMARTSSD_FPGA2HOST_EFFBW_0)"

definition host_total_fpga2host_latency :: "int \<Rightarrow> real \<Rightarrow> real" where
  "host_total_fpga2host_latency user_query user_pagenum =
     (let hi = host_iteration user_pagenum;
          last_latency = (to_double (user_outbuffer_size user_query user_pagenum)
                            / user_fpga2host_effbw user_query user_pagenum) * 1000
      in if aggregate_query user_query
         then fold (\<lambda>i total. total + last_latency) [0..<unat (hi + 1)] 0
         else fold (\<lambda>i total.
                      if i = unat hi then total + last_latency
                      else total + ((131072 * 4096) / SMARTSSD_FPGA2HOST_EFFBW_0) * 1000)
                   [0..<unat (hi + 1)] 0)"

text \<open>
  The measured unit cycle counts (lines 1976-2177): one \<^verbatim>\<open>switch\<close> over the query
  number for each dataset, as a table indexed by the query number; a query number or
  a dataset without a case leaves both counts at their initial value 0.
\<close>

definition higgs_cycles :: "(size_t \<times> size_t) list" where
  "higgs_cycles =
     [(5522, 703), (5522, 703), (5582, 518), (5582, 518),
      (5552, 701), (5552, 701), (5612, 521), (5612, 521),
      (5522, 703), (28048, 5766), (4591, 5534)]"

definition forest_cycles :: "(size_t \<times> size_t) list" where
  "forest_cycles =
     [(5215, 785), (5215, 778503), (5308, 527), (5308, 527),
      (5244, 782), (5244, 782), (5338, 535), (5338, 535),
      (5215, 785), (14651, 5685), (2903, 5500)]"

definition wilt_cycles :: "(size_t \<times> size_t) list" where
  "wilt_cycles =
     [(5087, 884), (5087, 884), (5238, 536), (5238, 536),
      (5117, 882), (5117, 882), (5268, 534), (5268, 534),
      (5087, 882), (7785, 5864), (4512, 5623)]"

definition haberman_cycles :: "(size_t \<times> size_t) list" where
  "haberman_cycles =
     [(4335, 980), (4335, 980), (4507, 533), (4507, 533),
      (4365, 949), (4365, 949), (4537, 534), (4537, 534),
      (4335, 979), (4019, 5356), (4153, 5050)]"

definition switch_query :: "(size_t \<times> size_t) list \<Rightarrow> int \<Rightarrow> size_t \<times> size_t" where
  "switch_query tbl user_query_num =
     (if Q1 \<le> user_query_num \<and> user_query_num \<le> Q11 then tbl ! nat user_query_num else (0, 0))"

definition user_unit_cycle :: "int \<Rightarrow> int \<Rightarrow> size_t \<times> size_t" where
  "user_unit_cycle user_dataset user_query_num =
     (if user_dataset = HIGGS then switch_query higgs_cycles user_query_num
      else if user_dataset = FOREST then switch_query forest_cycles user_query_num
      else if user_dataset = WILT then switch_query wilt_cycles user_query_num
      else if user_dataset = HABERMAN then switch_query haberman_cycles user_query_num
      else (0, 0))"

definition user_total_com_cycle :: "int \<Rightarrow> int \<Rightarrow> real \<Rightarrow> size_t" where
  "user_total_com_cycle user_query_num user_dataset user_pagenum =
     (let hi = host_iteration user_pagenum;
          user_unit_com_cycle = fst (user_unit_cycle user_dataset user_query_num)
      in fold (\<lambda>i total.
                 if i = unat hi then total + user_unit_com_cycle * page_iteration user_pagenum
                 else total + user_unit_com_cycle * (UNIT_DATABASE_SIZE * 2) div PAGE_SIZE)
              [0..<unat (hi + 1)] 0)"

definition user_total_dma_cycle :: "int \<Rightarrow> int \<Rightarrow> real \<Rightarrow> size_t" where
  "user_total_dma_cycle user_query_num user_dataset user_pagenum =
     (let hi = host_iteration user_pagenum;
          user_unit_dma_cycle = snd (user_unit_cycle user_dataset user_query_num)
      in if aggregate_query user_query_num then (hi + 1) * user_unit_dma_cycle
         else fold (\<lambda>i total.
                 if i = unat hi then total + user_unit_dma_cycle * page_iteration user_pagenum
                 else total + user_unit_dma_cycle * (UNIT_DATABASE_SIZE * 2) div PAGE_SIZE)
              [0..<unat (hi + 1)] 0)"

definition user_total_kernel_latency :: "int \<Rightarrow> int \<Rightarrow> real \<Rightarrow> real" where
  "user_total_kernel_latency user_query_num user_dataset user_pagenum =
     (let user_effective_com_cycle =
            user_total_com_cycle user_query_num user_dataset user_pagenum div user_corenum;
          user_effective_dma_cycle =
            user_total_dma_cycle user_query_num user_dataset user_pagenum div user_corenum;
          user_total_com_latency =
            (to_double user_effective_com_cycle / (to_double USER_CLOCK * 1000000)) * 1000;
          user_total_dma_latency =
            (to_double user_effective_dma_cycle / (to_double USER_CLOCK * 1000000)) * 1000
      in user_total_com_latency + user_total_dma_latency)"

definition get_hw_expectation_time :: "int \<Rightarrow> int \<Rightarrow> real \<Rightarrow> real" where
  "get_hw_expectation_time user_query_num user_dataset user_pagenum =
     (let user_kernel_overhead_latency =
            user_total_kernel_latency user_query_num user_dataset user_pagenum * 0.041
      in host_total_createbuffer_latency user_pagenum
           + host_total_addressmap_latency user_pagenum
           + host_total_ssd2fpga_latency user_pagenum
           + host_total_setkernel_latency user_pagenum
           + user_total_kernel_latency user_query_num user_dataset user_pagenum
           + user_kernel_overhead_latency
           + host_total_fpga2host_latency user_query_num user_pagenum)"

section \<open>Adaptive CPU cost model: evaluation of a cubic\<close>

text \<open>Constants of the adaptive range (lines 405-408).\<close>

definition QUERYNUM :: nat where "QUERYNUM = 11"
definition DATASIZE :: nat where "DATASIZE = 50"
definition EXEC_ORDER :: nat where "EXEC_ORDER = 3"
definition ADJ_MIN_DATANUM :: nat where "ADJ_MIN_DATANUM = 3"

text \<open>\<^verbatim>\<open>polyval\<close> (lines 2621-2634).\<close>

definition polyval :: "real \<Rightarrow> real list \<Rightarrow> real" where
  "polyval new_data exec_coef =
     fold (\<lambda>j result.
             result + exec_coef ! (EXEC_ORDER - j) * fold (\<lambda>k partial_mul. partial_mul * new_data) [0..<j] 1)
          (rev [0..<EXEC_ORDER + 1]) 0"

text \<open>
  The shift \<^verbatim>\<open>for (int j = (len - 1) ; j >= i ; j--) a[j + 1] = a[j];\<close> of the
  insertion loops (for instance lines 3497-3500), which the roll-backs of \<^verbatim>\<open>adjust_range\<close>
  repeat from index 0 (for instance lines 2862-2865),
  with \<open>k\<close> passes left, the next one at \<open>j = i + k - 1\<close>.  A write beyond the last
  slot of the array is the failure \<open>None\<close>.
\<close>

fun shift_up :: "nat \<Rightarrow> nat \<Rightarrow> real list \<Rightarrow> real list option" where
  "shift_up i 0 a = Some a"
| "shift_up i (Suc k) a =
     (if i + k + 1 < length a then shift_up i k (a[i + k + 1 := a ! (i + k)]) else None)"

section \<open>Adaptive CPU cost model: cubic least-squares fit\<close>

text \<open>
  \<^verbatim>\<open>matrix_t\<close> (lines 417-421): a matrix stored row by row in one array.
  \<^verbatim>\<open>MATRIX_VALUE_PTR(pA, row, col)\<close> addresses slot \<open>row * cols + col\<close>; the two
  definitions below read and write through it.
\<close>

record matrix_t =
  rows :: nat
  cols :: nat
  pContents :: "real list"

definition MATRIX_VALUE :: "matrix_t \<Rightarrow> nat \<Rightarrow> nat \<Rightarrow> real" where
  "MATRIX_VALUE pA row col = pContents pA ! (row * cols pA + col)"

definition MATRIX_STORE :: "matrix_t \<Rightarrow> nat \<Rightarrow> nat \<Rightarrow> real \<Rightarrow> matrix_t" where
  "MATRIX_STORE pA row col v = pA\<lparr>pContents := (pContents pA)[row * cols pA + col := v]\<rparr>"

text \<open>
  \<^verbatim>\<open>createTranspose\<close> (lines 2636-2647) and \<^verbatim>\<open>createProduct\<close> (lines 2649-2671) fill a
  fresh matrix entry by entry; the entries are listed in the order of the array.  The
  sum of a product entry starts at the 0 that \<^verbatim>\<open>calloc\<close> wrote and adds the terms in
  the order \<open>k = 0, 1, ...\<close>.  Failing allocations are not modelled.
\<close>

definition createTranspose :: "matrix_t \<Rightarrow> matrix_t" where
  "createTranspose pMat =
     \<lparr> rows = cols pMat, cols = rows pMat,
       pContents = concat (map (\<lambda>r. map (\<lambda>c. MATRIX_VALUE pMat c r) [0..<rows pMat])
                               [0..<cols pMat]) \<rparr>"

definition createProduct :: "matrix_t \<Rightarrow> matrix_t \<Rightarrow> matrix_t" where
  "createProduct pLeft pRight =
     \<lparr> rows = rows pLeft, cols = cols pRight,
       pContents =
         concat (map (\<lambda>i. map (\<lambda>j. fold (\<lambda>k acc. acc + MATRIX_VALUE pLeft i k * MATRIX_VALUE pRight k j)
                                           [0..<cols pLeft] 0)
                                [0..<cols pRight])
                     [0..<rows pLeft]) \<rparr>"

text \<open>
  A division of doubles.  For a divisor 0 the IEEE result is an infinity or NaN, which
  no real number denotes; the model then takes the value \<open>dz x\<close> of a parameter \<open>dz\<close>,
  about which nothing is assumed.
\<close>

definition c_div :: "(real \<Rightarrow> real) \<Rightarrow> real \<Rightarrow> real \<Rightarrow> real" where
  "c_div dz x y = (if y = 0 then dz x else x / y)"

text \<open>
  The elimination loop of \<^verbatim>\<open>polyfit\<close> (lines 2556-2575) over the columns still to be
  treated.  A pivot that is exactly 0 sets the return value to \<open>-4\<close> and leaves the
  loop; otherwise every other row is reduced by the pivot row.
\<close>

definition reduce_row :: "nat \<Rightarrow> real \<Rightarrow> nat \<Rightarrow> matrix_t \<times> matrix_t \<Rightarrow> matrix_t \<times> matrix_t" where
  "reduce_row pr prVal r AB =
     (case AB of (pMatATA, pMatATB) \<Rightarrow>
        if r \<noteq> pr then
          (let targetRowVal = MATRIX_VALUE pMatATA r pr;
               factor = targetRowVal / prVal
           in (fold (\<lambda>c2 A. MATRIX_STORE A r c2 (MATRIX_VALUE A r c2 - MATRIX_VALUE A pr c2 * factor))
                    [0..<cols pMatATA] pMatATA,
               MATRIX_STORE pMatATB r 0 (MATRIX_VALUE pMatATB r 0 - MATRIX_VALUE pMatATB pr 0 * factor)))
        else (pMatATA, pMatATB))"

fun eliminate :: "nat list \<Rightarrow> matrix_t \<Rightarrow> matrix_t \<Rightarrow> int \<times> matrix_t \<times> matrix_t" where
  "eliminate [] pMatATA pMatATB = (0, pMatATA, pMatATB)"
| "eliminate (c # cs) pMatATA pMatATB =
     (let prVal = MATRIX_VALUE pMatATA c c in
      if prVal = 0 then (- 4, pMatATA, pMatATB)
      else (case fold (reduce_row c prVal) [0..<rows pMatATA] (pMatATA, pMatATB) of
              (A, B) \<Rightarrow> eliminate cs A B))"

text \<open>The second loop (lines 2576-2582): every row is divided by its diagonal entry.\<close>

definition normalise :: "(real \<Rightarrow> real) \<Rightarrow> matrix_t \<times> matrix_t \<Rightarrow> matrix_t \<times> matrix_t" where
  "normalise dz AB =
     fold (\<lambda>c (A, B).
             (let prVal = MATRIX_VALUE A c c
              in (MATRIX_STORE A c c (c_div dz (MATRIX_VALUE A c c) prVal),
                  MATRIX_STORE B c 0 (c_div dz (MATRIX_VALUE B c 0) prVal))))
          [0..<cols (fst AB)] AB"

text \<open>
  \<^verbatim>\<open>polyfit\<close> (lines 2500-2596).  The result is the return value together with the
  content of \<^verbatim>\<open>coefficientResults\<close> after the call.  The three pointers are arrays in
  every call of the source, so the test for null pointers (return value \<open>-1\<close>) and the
  failing allocations (\<open>-3\<close>) have no branch here; the arrays hold at least
  \<open>pointCount\<close> values.
\<close>

definition polyfit ::
  "(real \<Rightarrow> real) \<Rightarrow> nat \<Rightarrow> real list \<Rightarrow> real list \<Rightarrow> nat \<Rightarrow> real list \<Rightarrow> int \<times> real list" where
  "polyfit dz pointCount xValues yValues coefficientCount coefficientResults =
     (let degree = coefficientCount - 1 in
      if pointCount < coefficientCount then (- 2, coefficientResults)
      else
        (let pMatA = \<lparr> rows = pointCount, cols = coefficientCount,
                       pContents = concat (map (\<lambda>r. map (\<lambda>c. (xValues ! r) ^ (degree - c))
                                                           [0..<coefficientCount])
                                               [0..<pointCount]) \<rparr>;
             pMatB = \<lparr> rows = pointCount, cols = 1,
                       pContents = map (\<lambda>r. yValues ! r) [0..<pointCount] \<rparr>;
             pMatAT = createTranspose pMatA;
             pMatATA = createProduct pMatAT pMatA;
             pMatATB = createProduct pMatAT pMatB
         in case eliminate [0..<cols pMatATA] pMatATA pMatATB of
              (rVal, A, B) \<Rightarrow>
                (case normalise dz (A, B) of
                   (A', B') \<Rightarrow>
                     (rVal,
                      map (\<lambda>i. MATRIX_VALUE B' i 0) [0..<coefficientCount]
                        @ drop coefficientCount coefficientResults))))"

text \<open>
  \<^verbatim>\<open>get_avg_error\<close> (lines 2706-2743).  \<open>exec_coef\<close> is the content of the coefficient
  block handed in; the return value of \<^verbatim>\<open>polyfit\<close> is only printed, and the block, as
  \<^verbatim>\<open>polyfit\<close> left it, is evaluated at every sample by \<^verbatim>\<open>polyval_multi\<close> (lines
  2598-2619, the computation of \<^verbatim>\<open>polyval\<close> for each sample).  The result is the mean
  absolute error, the mean percentage error and the coefficient block.
\<close>

definition get_avg_error ::
  "(real \<Rightarrow> real) \<Rightarrow> real list \<Rightarrow> real list \<Rightarrow> nat \<Rightarrow> real list \<Rightarrow> bool \<Rightarrow> real \<times> real \<times> real list" where
  "get_avg_error dz data_num exec_time data_len exec_coef first_flag =
     (let coef = snd (polyfit dz data_len data_num exec_time (EXEC_ORDER + 1) exec_coef);
          assume_result = map (\<lambda>i. polyval (data_num ! i) coef) [0..<data_len];
          totals =
            fold (\<lambda>j (total_error, total_error_rate).
                    (let partial_error = \<bar>exec_time ! j - assume_result ! j\<bar> in
                     if \<not> first_flag \<and> j = 0 then (total_error, total_error_rate)
                     else (total_error + partial_error,
                           total_error_rate + c_div dz partial_error (exec_time ! j) * 100)))
                 [0..<data_len] (0, 0)
      in (c_div dz (fst totals) (real data_len), c_div dz (snd totals) (real data_len), coef))"

section \<open>Adaptive CPU cost model: re-partitioning of two adjacent buckets\<close>

text \<open>
  \<^verbatim>\<open>adjust_range\<close> obtains its working arrays and coefficient blocks from \<^verbatim>\<open>malloc\<close> and
  reads some of them before it has written them: a coefficient block stays as
  allocated when \<^verbatim>\<open>polyfit\<close> refuses the fit.  The content of each fresh block is
  therefore an input of the model, given by a function \<open>junk\<close> on the allocation
  sites: the two blocks of the initial fits, the two blocks allocated in pass \<open>rec\<close>
  of the scan \<open>phase\<close>, and the four working arrays of a scan.
\<close>

datatype site =
    DefLeftCoef | DefRightCoef
  | LeftCoef nat nat | RightCoef nat nat
  | LeftNum nat | RightNum nat | LeftTime nat | RightTime nat

definition block :: "nat \<Rightarrow> real list \<Rightarrow> real list" where
  "block n content = take n content @ replicate (n - length content) 0"

text \<open>
  The variables of one scan (the variables with suffix \<^verbatim>\<open>_1\<close> or \<^verbatim>\<open>_2\<close> of the
  source).  \<^verbatim>\<open>min_left_error\<close> and \<^verbatim>\<open>min_right_error\<close> are written and never read,
  and are left out.  \<open>min_left_coef\<close> and \<open>min_right_coef\<close> are the contents of the
  two blocks that the pointers of these names refer to, and \<open>min_coef_freed\<close> tells
  whether these two blocks have been released with \<^verbatim>\<open>free\<close>: the pointers then
  dangle, and the contents are the values last written to the blocks.
\<close>

record scan_state =
  min_left_data_num :: "real list"
  min_right_data_num :: "real list"
  min_left_exec_time :: "real list"
  min_right_exec_time :: "real list"
  left_len :: nat
  right_len :: nat
  min_left_error_rate :: real
  min_right_error_rate :: real
  min_left_coef :: "real list"
  min_right_coef :: "real list"
  min_left_len :: nat
  min_right_len :: nat
  min_coef_freed :: bool

text \<open>
  The loop \<^verbatim>\<open>for (d = 0 ; d < (right_len - 1) ; d++) a[d] = a[d + 1];\<close>
  with \<open>k\<close> passes left, the next one at index \<open>d\<close>.
\<close>

primrec shift_down :: "nat \<Rightarrow> nat \<Rightarrow> real list \<Rightarrow> real list" where
  "shift_down 0 d a = a"
| "shift_down (Suc k) d a = shift_down k (Suc d) (a[d := a ! Suc d])"

text \<open>
  The move of the boundary to the right (lines 2821-2830, the step of the first scan;
  the same statements are the roll-back of the second scan, lines 3070-3079): slot 1
  of the right arrays is appended to the left arrays, and the right arrays lose their
  slot 0.  \<open>None\<close> is an access outside an array.
\<close>

definition take_from_right :: "scan_state \<Rightarrow> scan_state option" where
  "take_from_right st =
     (let L = min_left_data_num st; Lt = min_left_exec_time st;
          R = min_right_data_num st; Rt = min_right_exec_time st;
          ll = left_len st; rl = right_len st
      in if 1 < length R \<and> 1 < length Rt \<and> ll < length L \<and> ll < length Lt
            \<and> 1 \<le> rl \<and> rl \<le> length R \<and> rl \<le> length Rt
         then Some (st\<lparr> min_left_data_num := L[ll := R ! 1],
                         min_left_exec_time := Lt[ll := Rt ! 1],
                         left_len := ll + 1,
                         min_right_data_num := (shift_down (rl - 1) 0 R)[rl - 1 := 0],
                         min_right_exec_time := (shift_down (rl - 1) 0 Rt)[rl - 1 := 0],
                         right_len := rl - 1 \<rparr>)
         else None)"

text \<open>
  The move of the boundary to the left (lines 3029-3038, the step of the second scan;
  the same statements are the roll-back of the first scan, for instance lines
  2862-2871): the right arrays move up by one slot and receive the slot before the
  last of the left arrays, whose last slot is cleared.
\<close>

definition give_to_right :: "scan_state \<Rightarrow> scan_state option" where
  "give_to_right st =
     (let L = min_left_data_num st; Lt = min_left_exec_time st;
          R = min_right_data_num st; Rt = min_right_exec_time st;
          ll = left_len st; rl = right_len st
      in if 2 \<le> ll \<and> ll \<le> length L \<and> ll \<le> length Lt \<and> rl < length R \<and> rl < length Rt
         then
           do {
             R' \<leftarrow> shift_up 0 rl R;
             Rt' \<leftarrow> shift_up 0 rl Rt;
             Some (st\<lparr> min_right_data_num := R'[0 := L ! (ll - 2)],
                        min_right_exec_time := Rt'[0 := Lt ! (ll - 2)],
                        right_len := rl + 1,
                        min_left_data_num := L[ll - 1 := 0],
                        min_left_exec_time := Lt[ll - 1 := 0],
                        left_len := ll - 1 \<rparr>)
           }
         else None)"

text \<open>
  The decision on a step (lines 2845-2943 and 3053-3151): the step is kept when both
  error rates fall, dropped when both rise, and otherwise kept when the one falls by
  more than the other rises.
\<close>

definition step_kept :: "real \<Rightarrow> real \<Rightarrow> real \<Rightarrow> real \<Rightarrow> bool" where
  "step_kept min_left min_right left_error_rate right_error_rate =
     (if left_error_rate < min_left \<and> right_error_rate < min_right then True
      else if left_error_rate > min_left \<and> right_error_rate > min_right then False
      else if left_error_rate < min_left \<and> right_error_rate > min_right
        then min_left - left_error_rate > right_error_rate - min_right
      else min_right - right_error_rate > left_error_rate - min_left)"

text \<open>
  The two tests that end a scan after a step was kept (lines 2944 and 2961): one of
  the two error rates is below 5, or one of the two recorded lengths is below 4.
\<close>

definition early_stop :: "scan_state \<Rightarrow> bool" where
  "early_stop st \<longleftrightarrow>
     (min_left_error_rate st < 5 \<or> min_right_error_rate st < 5)
     \<or> (min_left_len st < 4 \<or> min_right_len st < 4)"

text \<open>
  One pass through the body of a scan loop.  \<open>forward\<close> is the step and \<open>back\<close> its
  roll-back; \<open>stop\<close> is the state whose error rates and lengths the two tests after a
  kept step read, if it is not the state of the scan itself.  The result tells
  whether the loop goes on.

  A kept step releases the two blocks that \<open>min_left_coef\<close> and \<open>min_right_coef\<close>
  referred to (releasing a block a second time has no defined result and is the
  failure \<open>None\<close>) and makes the two pointers refer to the blocks of this pass
  (for instance lines 2852-2855).  A dropped step releases the blocks of this pass,
  to which no other pointer refers.  When one of the two tests after a kept step ends
  the scan, the roll-back is followed by \<^verbatim>\<open>free(left_coef); free(right_coef)\<close> (lines
  2957-2958, 2974-2975, 3165-3166 and 3182-3183), which releases the blocks of this
  pass, although \<open>min_left_coef\<close> and \<open>min_right_coef\<close> refer to them since the step
  was kept.
\<close>

definition scan_pass ::
  "(real \<Rightarrow> real) \<Rightarrow> (site \<Rightarrow> real list) \<Rightarrow> bool \<Rightarrow> nat
     \<Rightarrow> (scan_state \<Rightarrow> scan_state option) \<Rightarrow> (scan_state \<Rightarrow> scan_state option)
     \<Rightarrow> scan_state option \<Rightarrow> nat \<Rightarrow> scan_state \<Rightarrow> (bool \<times> scan_state) option" where
  "scan_pass dz junk first_flag phase forward back stop rec st =
     do {
       moved \<leftarrow> forward st;
       let (left_error, left_error_rate, left_coef) =
             get_avg_error dz (min_left_data_num moved) (min_left_exec_time moved) (left_len moved)
               (block (EXEC_ORDER + 1) (junk (LeftCoef phase rec))) first_flag;
           (right_error, right_error_rate, right_coef) =
             get_avg_error dz (min_right_data_num moved) (min_right_exec_time moved) (right_len moved)
               (block (EXEC_ORDER + 1) (junk (RightCoef phase rec))) False
       in if step_kept (min_left_error_rate st) (min_right_error_rate st)
               left_error_rate right_error_rate
          then
            if min_coef_freed st then None
            else
              (let kept = moved\<lparr> min_left_error_rate := left_error_rate,
                                  min_right_error_rate := right_error_rate,
                                  min_left_coef := left_coef, min_right_coef := right_coef,
                                  min_left_len := left_len moved,
                                  min_right_len := right_len moved \<rparr>
               in if early_stop (case stop of None \<Rightarrow> kept | Some other \<Rightarrow> other)
                  then map_option (\<lambda>st'. (False, st'\<lparr> min_coef_freed := True \<rparr>)) (back kept)
                  else Some (True, kept))
          else map_option (Pair False) (back moved)
     }"

text \<open>A scan loop with \<open>n\<close> passes left, the next one being pass \<open>rec\<close>.\<close>

fun scan ::
  "(real \<Rightarrow> real) \<Rightarrow> (site \<Rightarrow> real list) \<Rightarrow> bool \<Rightarrow> nat
     \<Rightarrow> (scan_state \<Rightarrow> scan_state option) \<Rightarrow> (scan_state \<Rightarrow> scan_state option)
     \<Rightarrow> scan_state option \<Rightarrow> nat \<Rightarrow> nat \<Rightarrow> scan_state \<Rightarrow> scan_state option" where
  "scan dz junk first_flag phase forward back stop 0 rec st = Some st"
| "scan dz junk first_flag phase forward back stop (Suc n) rec st =
     (case scan_pass dz junk first_flag phase forward back stop rec st of
        None \<Rightarrow> None
      | Some (go_on, st') \<Rightarrow>
          if go_on then scan dz junk first_flag phase forward back stop n (Suc rec) st'
          else Some st')"

text \<open>
  What \<^verbatim>\<open>adjust_range\<close> hands back: the four arrays, the two coefficient blocks, the
  two lengths stored through \<^verbatim>\<open>data1_len\<close> and \<^verbatim>\<open>data2_len\<close>, and the two error
  rates it prints as its final result.  \<open>coef_freed\<close> tells whether the two
  coefficient blocks handed back have been released: the caller then receives two
  dangling pointers, and \<open>left_coef\<close> and \<open>right_coef\<close> are the values last written to
  the released blocks.
\<close>

record adjusted =
  left_data_num :: "real list"
  right_data_num :: "real list"
  left_exec_time :: "real list"
  right_exec_time :: "real list"
  left_coef :: "real list"
  right_coef :: "real list"
  new_data1_len :: nat
  new_data2_len :: nat
  left_error_rate_printed :: real
  right_error_rate_printed :: real
  coef_freed :: bool

definition handed_back :: "scan_state \<Rightarrow> adjusted" where
  "handed_back st =
     \<lparr> left_data_num = min_left_data_num st, right_data_num = min_right_data_num st,
       left_exec_time = min_left_exec_time st, right_exec_time = min_right_exec_time st,
       left_coef = min_left_coef st, right_coef = min_right_coef st,
       new_data1_len = min_left_len st, new_data2_len = min_right_len st,
       left_error_rate_printed = min_left_error_rate st,
       right_error_rate_printed = min_right_error_rate st,
       coef_freed = min_coef_freed st \<rparr>"

text \<open>
  The state in which a scan starts (lines 2788-2818 and 2995-3026): the error rates
  of the initial fits, two fresh blocks into which the coefficients of the initial
  fits are copied, and fresh arrays of \<open>total_len\<close> slots into which the samples of
  the two buckets are copied.
\<close>

definition scan_start ::
  "(site \<Rightarrow> real list) \<Rightarrow> nat \<Rightarrow> real list \<Rightarrow> real list \<Rightarrow> real list \<Rightarrow> real list
     \<Rightarrow> nat \<Rightarrow> nat \<Rightarrow> real \<Rightarrow> real \<Rightarrow> real list \<Rightarrow> real list \<Rightarrow> scan_state" where
  "scan_start junk phase data_num1 data_num2 exec_time1 exec_time2 def_data1_len def_data2_len
       def_left_error_rate def_right_error_rate def_left_coef def_right_coef =
     (let total_len = def_data1_len + def_data2_len in
      \<lparr> min_left_data_num =
          take def_data1_len data_num1 @ drop def_data1_len (block total_len (junk (LeftNum phase))),
        min_right_data_num =
          take def_data2_len data_num2 @ drop def_data2_len (block total_len (junk (RightNum phase))),
        min_left_exec_time =
          take def_data1_len exec_time1 @ drop def_data1_len (block total_len (junk (LeftTime phase))),
        min_right_exec_time =
          take def_data2_len exec_time2 @ drop def_data2_len (block total_len (junk (RightTime phase))),
        left_len = def_data1_len, right_len = def_data2_len,
        min_left_error_rate = def_left_error_rate, min_right_error_rate = def_right_error_rate,
        min_left_coef = def_left_coef, min_right_coef = def_right_coef,
        min_left_len = def_data1_len, min_right_len = def_data2_len,
        min_coef_freed = False \<rparr>)"

text \<open>
  \<^verbatim>\<open>adjust_range\<close> (lines 2745-3255).  The first scan (phase 1) moves samples from the
  right bucket into the left one and tests its own state after a kept step; the
  second scan (phase 2) moves them from the left into the right and, after a kept
  step, tests the error rates and lengths of the first scan (lines 3152 and 3169 read
  the variables with suffix \<^verbatim>\<open>_1\<close>).  The scan with the strictly lower sum of error
  rates is handed back, the second one on a tie, and the arrays and the two
  coefficient blocks of the other scan are released (lines 3222-3227 and 3246-3251);
  if that scan has released its coefficient blocks already, they are released a
  second time, which has no defined result and is the failure \<open>None\<close>.  The arrays
  passed in hold at least \<open>data1_len\<close> and \<open>data2_len\<close> values.
\<close>

definition adjust_range ::
  "(real \<Rightarrow> real) \<Rightarrow> (site \<Rightarrow> real list) \<Rightarrow> real list \<Rightarrow> real list \<Rightarrow> real list \<Rightarrow> real list
     \<Rightarrow> nat \<Rightarrow> nat \<Rightarrow> bool \<Rightarrow> adjusted option" where
  "adjust_range dz junk data_num1 data_num2 exec_time1 exec_time2 data1_len data2_len first_flag =
     (let (def_left_error, def_left_error_rate, def_left_coef) =
            get_avg_error dz data_num1 exec_time1 data1_len
              (block (EXEC_ORDER + 1) (junk DefLeftCoef)) first_flag;
          (def_right_error, def_right_error_rate, def_right_coef) =
            get_avg_error dz data_num2 exec_time2 data2_len
              (block (EXEC_ORDER + 1) (junk DefRightCoef)) False
      in do {
           p1 \<leftarrow> scan dz junk first_flag 1 take_from_right give_to_right None data2_len 0
                   (scan_start junk 1 data_num1 data_num2 exec_time1 exec_time2 data1_len data2_len
                      def_left_error_rate def_right_error_rate def_left_coef def_right_coef);
           p2 \<leftarrow> scan dz junk first_flag 2 give_to_right take_from_right (Some p1) data1_len 0
                   (scan_start junk 2 data_num1 data_num2 exec_time1 exec_time2 data1_len data2_len
                      def_left_error_rate def_right_error_rate def_left_coef def_right_coef);
           if min_left_error_rate p1 + min_right_error_rate p1
                < min_left_error_rate p2 + min_right_error_rate p2
           then (if min_coef_freed p2 then None else Some (handed_back p1))
           else (if min_coef_freed p1 then None else Some (handed_back p2))
         })"

section \<open>Adaptive CPU cost model: sample sets\<close>

text \<open>
  The state the source keeps for one query class (the entries with one index
  \<^verbatim>\<open>query_num\<close> of the global arrays of lines 429-443).  A C array is the list of all
  its slots, so the length of the list is the capacity of the heap block and slots
  beyond the recorded length hold whatever was left there; the recorded lengths are
  fields of their own, as in the source.
\<close>

record sample_set =
  data_num1 :: "real list"
  data_num2 :: "real list"
  data_num3 :: "real list"
  exec_time1 :: "real list"
  exec_time2 :: "real list"
  exec_time3 :: "real list"
  data1_len :: nat
  data2_len :: nat
  data3_len :: nat
  exec_coef1 :: "real list"
  exec_coef2 :: "real list"
  exec_coef3 :: "real list"

section \<open>Offload decision\<close>

datatype backend = USE_CPU | USE_HW

record prediction =
  new_exec_time_predict :: real
  hw_expectation_time :: real
  chosen :: backend
  cpu_hw_ratio :: real

text \<open>
  The CPU cost approximation (lines 2438-2444, again at lines 7745-7751): the bucket
  is chosen by comparing the size with slot 0 of the second and of the third array,
  and the cubic of that bucket is evaluated.
\<close>

definition cpu_cost_approximation :: "sample_set \<Rightarrow> real \<Rightarrow> real" where
  "cpu_cost_approximation s new_data_num_predict =
     (if new_data_num_predict \<le> data_num2 s ! 0
        then polyval new_data_num_predict (exec_coef1 s)
      else if new_data_num_predict \<le> data_num3 s ! 0
        then polyval new_data_num_predict (exec_coef2 s)
      else polyval new_data_num_predict (exec_coef3 s))"

text \<open>The dataset category from the number of data columns (lines 2448-2457).\<close>

definition dataset_num :: "nat \<Rightarrow> int" where
  "dataset_num op_data_col_len =
     (if op_data_col_len > 17 then HIGGS
      else if op_data_col_len > 8 then FOREST
      else if op_data_col_len > 4 then WILT
      else HABERMAN)"

text \<open>
  The predictor part of \<^verbatim>\<open>sw_stack_for_hw\<close> (lines 2431-2473, with
  \<^verbatim>\<open>USE_ADAPTIVE_RANGE\<close> = 1).  \<open>s\<close> is the sample set of the statement's query class,
  \<open>new_data_num\<close> and \<open>page_num\<close> are the results of \<^verbatim>\<open>get_data_num\<close>.  \<open>None\<close> is the
  branch that prints "not enough data gathered".
\<close>

definition cost_predictor ::
  "sample_set \<Rightarrow> int \<Rightarrow> nat \<Rightarrow> real \<Rightarrow> real \<Rightarrow> prediction option" where
  "cost_predictor s query_num op_data_col_len new_data_num page_num =
     (let new_data_num_predict = new_data_num / 1000 in
      if data1_len s > ADJ_MIN_DATANUM \<and> data2_len s > ADJ_MIN_DATANUM
           \<and> data3_len s > ADJ_MIN_DATANUM
      then
        (let cpu = cpu_cost_approximation s new_data_num_predict;
             hw = get_hw_expectation_time query_num (dataset_num op_data_col_len) page_num
         in Some \<lparr> new_exec_time_predict = cpu, hw_expectation_time = hw,
                    chosen = (if cpu < hw then USE_CPU else USE_HW),
                    cpu_hw_ratio = cpu / hw \<rparr>)
      else None)"

section \<open>Insertion of a new observation\<close>

text \<open>
  One of the three copies of the insertion loop (lines 3490-3507, 3510-3527 and
  3529-3546): the first index \<open>i < len\<close> with \<open>num[i] \<ge> new\<close> decides; on equality the
  stored time becomes the mean of the stored and the new time, otherwise the entries
  from \<open>i\<close> on move up by one slot, the observation is stored at \<open>i\<close> and the recorded
  length grows by one.  When no such index exists nothing is written.
\<close>

definition bucket_insert ::
  "real list \<Rightarrow> real list \<Rightarrow> nat \<Rightarrow> real \<Rightarrow> real \<Rightarrow> (real list \<times> real list \<times> nat) option" where
  "bucket_insert num time len new_data_num_add new_exec_time_add =
     (if len \<le> length num \<and> len \<le> length time then
        (case find (\<lambda>i. num ! i \<ge> new_data_num_add) [0..<len] of
           None \<Rightarrow> Some (num, time, len)
         | Some i \<Rightarrow>
             if num ! i = new_data_num_add
             then Some (num, time[i := (time ! i + new_exec_time_add) / 2], len)
             else
               do {
                 num' \<leftarrow> shift_up i (len - i) num;
                 time' \<leftarrow> shift_up i (len - i) time;
                 Some (num'[i := new_data_num_add], time'[i := new_exec_time_add], len + 1)
               })
      else None)"

text \<open>
  The insertion step of \<^verbatim>\<open>add_new_data\<close> (lines 3489-3547): the bucket is chosen by
  comparing the new size with slot 0 of the second and of the third array.
\<close>

definition add_new_data_insert :: "sample_set \<Rightarrow> real \<Rightarrow> real \<Rightarrow> sample_set option" where
  "add_new_data_insert s new_data_num_add new_exec_time_add =
     (if data_num2 s = [] \<or> data_num3 s = [] then None
      else if new_data_num_add \<le> data_num2 s ! 0 then
        do {
          (num, time, len) \<leftarrow>
            bucket_insert (data_num1 s) (exec_time1 s) (data1_len s) new_data_num_add new_exec_time_add;
          Some (s\<lparr>data_num1 := num, exec_time1 := time, data1_len := len\<rparr>)
        }
      else if new_data_num_add \<le> data_num3 s ! 0 then
        do {
          (num, time, len) \<leftarrow>
            bucket_insert (data_num2 s) (exec_time2 s) (data2_len s) new_data_num_add new_exec_time_add;
          Some (s\<lparr>data_num2 := num, exec_time2 := time, data2_len := len\<rparr>)
        }
      else
        do {
          (num, time, len) \<leftarrow>
            bucket_insert (data_num3 s) (exec_time3 s) (data3_len s) new_data_num_add new_exec_time_add;
          Some (s\<lparr>data_num3 := num, exec_time3 := time, data3_len := len\<rparr>)
        })"

text \<open>
  The bucket that the insertion step selects for a size (the two comparisons of lines
  3489 and 3509), as its two arrays and its recorded length, and the state in which
  that bucket is replaced by another one.
\<close>

definition selected_bucket :: "sample_set \<Rightarrow> real \<Rightarrow> real list \<times> real list \<times> nat" where
  "selected_bucket s new_data_num_add =
     (if new_data_num_add \<le> data_num2 s ! 0 then (data_num1 s, exec_time1 s, data1_len s)
      else if new_data_num_add \<le> data_num3 s ! 0 then (data_num2 s, exec_time2 s, data2_len s)
      else (data_num3 s, exec_time3 s, data3_len s))"

definition with_selected_bucket ::
  "sample_set \<Rightarrow> real \<Rightarrow> real list \<times> real list \<times> nat \<Rightarrow> sample_set" where
  "with_selected_bucket s new_data_num_add b =
     (case b of (num, time, len) \<Rightarrow>
        if new_data_num_add \<le> data_num2 s ! 0
          then s\<lparr>data_num1 := num, exec_time1 := time, data1_len := len\<rparr>
        else if new_data_num_add \<le> data_num3 s ! 0
          then s\<lparr>data_num2 := num, exec_time2 := time, data2_len := len\<rparr>
        else s\<lparr>data_num3 := num, exec_time3 := time, data3_len := len\<rparr>)"

text \<open>
  The invariant of a sample set: the recorded lengths fit the arrays, every bucket
  holds a sample, the sizes of each bucket ascend, and the buckets follow one another
  on the size axis (the last size of one is at most the first size of the next).
\<close>

definition bucket_ok :: "real list \<Rightarrow> real list \<Rightarrow> nat \<Rightarrow> bool" where
  "bucket_ok num time len \<longleftrightarrow>
     0 < len \<and> len \<le> length num \<and> length time = length num \<and> sorted (take len num)"

definition sample_set_ok :: "sample_set \<Rightarrow> bool" where
  "sample_set_ok s \<longleftrightarrow>
     bucket_ok (data_num1 s) (exec_time1 s) (data1_len s)
     \<and> bucket_ok (data_num2 s) (exec_time2 s) (data2_len s)
     \<and> bucket_ok (data_num3 s) (exec_time3 s) (data3_len s)
     \<and> data_num1 s ! (data1_len s - 1) \<le> data_num2 s ! 0
     \<and> data_num2 s ! (data2_len s - 1) \<le> data_num3 s ! 0"

section \<open>Sample sets used as concrete inputs\<close>

text \<open>
  Two small sample sets in the layout of the bootstrap data of \<^verbatim>\<open>get_init_values\<close>:
  arrays with more slots than samples, and the last sample of a bucket repeated as the
  first sample of the next one.  The first holds three samples in each bucket, the
  second four.
\<close>

definition three_sample_set :: sample_set where
  "three_sample_set =
     \<lparr> data_num1 = [1, 2, 3, 0, 0], data_num2 = [3, 4, 6, 0, 0], data_num3 = [6, 7, 8, 0, 0],
       exec_time1 = [10, 20, 30, 0, 0], exec_time2 = [30, 40, 60, 0, 0],
       exec_time3 = [60, 70, 80, 0, 0],
       data1_len = 3, data2_len = 3, data3_len = 3,
       exec_coef1 = [0, 0, 10, 0], exec_coef2 = [0, 0, 10, 0], exec_coef3 = [0, 0, 10, 0] \<rparr>"

definition four_sample_set :: sample_set where
  "four_sample_set =
     \<lparr> data_num1 = [1, 2, 3, 4, 0], data_num2 = [4, 5, 6, 7, 0], data_num3 = [7, 8, 9, 10, 0],
       exec_time1 = [1, 2, 3, 4, 0], exec_time2 = [4, 5, 6, 7, 0], exec_time3 = [7, 8, 9, 10, 0],
       data1_len = 4, data2_len = 4, data3_len = 4,
       exec_coef1 = [0, 0, 1, 0], exec_coef2 = [0, 0, 1, 0], exec_coef3 = [0, 0, 1, 0] \<rparr>"

text \<open>
  A sample set that satisfies the invariant and whose first bucket ends below the
  first size of the second bucket, and a sample set whose first bucket fills its
  arrays.
\<close>

definition gap_sample_set :: sample_set where
  "gap_sample_set =
     \<lparr> data_num1 = [1, 2, 3, 0, 0], data_num2 = [5, 6, 8, 0, 0], data_num3 = [8, 9, 10, 0, 0],
       exec_time1 = [10, 20, 30, 0, 0], exec_time2 = [50, 60, 80, 0, 0],
       exec_time3 = [80, 90, 100, 0, 0],
       data1_len = 3, data2_len = 3, data3_len = 3,
       exec_coef1 = [0, 0, 10, 0], exec_coef2 = [0, 0, 10, 0], exec_coef3 = [0, 0, 10, 0] \<rparr>"

definition full_sample_set :: sample_set where
  "full_sample_set =
     \<lparr> data_num1 = [1, 2, 4], data_num2 = [4, 6, 8, 0, 0], data_num3 = [8, 9, 10, 0, 0],
       exec_time1 = [10, 20, 40], exec_time2 = [40, 60, 80, 0, 0],
       exec_time3 = [80, 90, 100, 0, 0],
       data1_len = 3, data2_len = 3, data3_len = 3,
       exec_coef1 = [0, 0, 10, 0], exec_coef2 = [0, 0, 10, 0], exec_coef3 = [0, 0, 10, 0] \<rparr>"

text \<open>
  The input of a run of \<^verbatim>\<open>adjust_range\<close> on a left bucket of four and a right bucket of
  five samples, in which every fresh block holds the four values 0, 0, 0, 10, and the
  states that the two scans of this run pass through: the state in which both scans
  start, the state after the step of the first scan, the state after the step of the
  second scan, and the state in which the second scan ends, with its two coefficient
  blocks released.
\<close>

definition junk_10 :: "site \<Rightarrow> real list" where
  "junk_10 s = [0, 0, 0, 10]"

definition start4_5 :: scan_state where
  "start4_5 =
     \<lparr> min_left_data_num = [1, 2, 3, 4, 0, 0, 0, 0, 0],
       min_right_data_num = [4, 5, 6, 7, 8, 0, 0, 0, 0],
       min_left_exec_time = [10, 10, 10, 20, 0, 0, 0, 0, 0],
       min_right_exec_time = [20, 18, 24, 16, 5, 0, 0, 0, 0],
       left_len = 4, right_len = 5,
       min_left_error_rate = 0, min_right_error_rate = 913 / 105,
       min_left_coef = [5 / 3, - 10, 55 / 3, 0],
       min_right_coef = [- (11 / 12), 199 / 14, - (6019 / 84), 9617 / 70],
       min_left_len = 4, min_right_len = 5,
       min_coef_freed = False \<rparr>"

definition moved5_4 :: scan_state where
  "moved5_4 =
     \<lparr> min_left_data_num = [1, 2, 3, 4, 5, 0, 0, 0, 0],
       min_right_data_num = [5, 6, 7, 8, 0, 0, 0, 0, 0],
       min_left_exec_time = [10, 10, 10, 20, 18, 0, 0, 0, 0],
       min_right_exec_time = [18, 24, 16, 5, 0, 0, 0, 0, 0],
       left_len = 5, right_len = 4,
       min_left_error_rate = 0, min_right_error_rate = 913 / 105,
       min_left_coef = [5 / 3, - 10, 55 / 3, 0],
       min_right_coef = [- (11 / 12), 199 / 14, - (6019 / 84), 9617 / 70],
       min_left_len = 4, min_right_len = 5,
       min_coef_freed = False \<rparr>"

definition moved3_6 :: scan_state where
  "moved3_6 =
     \<lparr> min_left_data_num = [1, 2, 3, 0, 0, 0, 0, 0, 0],
       min_right_data_num = [3, 4, 5, 6, 7, 8, 0, 0, 0],
       min_left_exec_time = [10, 10, 10, 0, 0, 0, 0, 0, 0],
       min_right_exec_time = [10, 20, 18, 24, 16, 5, 0, 0, 0],
       left_len = 3, right_len = 6,
       min_left_error_rate = 0, min_right_error_rate = 913 / 105,
       min_left_coef = [5 / 3, - 10, 55 / 3, 0],
       min_right_coef = [- (11 / 12), 199 / 14, - (6019 / 84), 9617 / 70],
       min_left_len = 4, min_right_len = 5,
       min_coef_freed = False \<rparr>"

definition back3_6 :: scan_state where
  "back3_6 =
     \<lparr> min_left_data_num = [1, 2, 3, 4, 0, 0, 0, 0, 0],
       min_right_data_num = [4, 5, 6, 7, 8, 0, 0, 0, 0],
       min_left_exec_time = [10, 10, 10, 20, 0, 0, 0, 0, 0],
       min_right_exec_time = [20, 18, 24, 16, 5, 0, 0, 0, 0],
       left_len = 4, right_len = 5,
       min_left_error_rate = 0, min_right_error_rate = 34655 / 4536,
       min_left_coef = [0, 0, 0, 10],
       min_right_coef = [- (7 / 36), 19 / 21, 1963 / 252, - (219 / 14)],
       min_left_len = 3, min_right_len = 6,
       min_coef_freed = True \<rparr>"

section \<open>Auxiliary facts\<close>

lemmas op_defs = NONE_def LINREGR_def LOGREGR_def SVM_def MLP_def TREE_def
lemmas Q_defs = Q1_def Q2_def Q3_def Q4_def Q5_def Q6_def Q7_def Q8_def Q9_def Q10_def Q11_def
lemmas cluster_defs = SELECT_def FROM_def WHERE_def GROUP_BY_def ORDER_BY_def AS_def

declare extract_loop.simps [simp del]
declare extract_fuel.simps [simp del]

section \<open>Query classification\<close>

text \<open>
  The operation codes of the six operation names, as \<^verbatim>\<open>hw_ophashmap\<close> returns them:
  the random forest has the code of the logistic regression.
\<close>

lemma hw_ophashmap_names:
  "hw_ophashmap u ''madlib.linregr_predict'' = LINREGR"
  "hw_ophashmap u ''madlib.logregr_predict_prob'' = LOGREGR"
  "hw_ophashmap u ''madlib.svm_predict'' = SVM"
  "hw_ophashmap u ''madlib.mlp_predict'' = MLP"
  "hw_ophashmap u ''madlib.tree_predict'' = TREE"
  "hw_ophashmap u ''madlib.forest_predict'' = FOREST"
  by (simp_all add: hw_ophashmap_def)

lemma FOREST_is_LOGREGR: "FOREST = LOGREGR"
  by (simp add: FOREST_def LOGREGR_def)

text \<open>The class of each regression profile, by its two flags.\<close>

lemma get_query_num_regression:
  "get_query_num (info\<lparr>hw_support := True, hw_operation := LINREGR, filter_flag := f, aggr_flag := a\<rparr>)
     = (if f \<and> a then Q4 else if f then Q2 else if a then Q3 else Q1)"
  "get_query_num (info\<lparr>hw_support := True, hw_operation := LOGREGR, filter_flag := f, aggr_flag := a\<rparr>)
     = (if f \<and> a then Q8 else if f then Q6 else if a then Q7 else Q5)"
  by (simp_all add: get_query_num_def op_defs)

text \<open>
  C1: every supported profile whose operation code is one of the six codes that the
  program uses for linear regression, logistic regression, SVM, MLP, decision tree and
  random forest is classified as one of Q1 to Q11 and never as \<open>-1\<close>; two supported
  profiles with the same regression operation and the same class agree on the presence
  of a filter and of an aggregate, so the four combinations of one regression
  operation have four distinct classes.
\<close>

theorem C1_get_query_num_classes:
  "(hw_support info \<and> hw_operation info \<in> {LINREGR, LOGREGR, SVM, MLP, TREE, FOREST}
      \<longrightarrow> get_query_num info \<in> {Q1, Q2, Q3, Q4, Q5, Q6, Q7, Q8, Q9, Q10, Q11}
          \<and> get_query_num info \<noteq> - 1)
   \<and> (hw_support info \<and> hw_support info' \<and> hw_operation info \<in> {LINREGR, LOGREGR}
        \<and> hw_operation info' = hw_operation info \<and> get_query_num info' = get_query_num info
      \<longrightarrow> filter_flag info' = filter_flag info \<and> aggr_flag info' = aggr_flag info)"
  by (auto simp: get_query_num_def op_defs FOREST_def Q_defs split: if_splits)

theorem C1_get_query_num_classes_witness:
  "hw_support (init_operation_info\<lparr>hw_support := True, hw_operation := FOREST, filter_flag := True\<rparr>)
   \<and> hw_operation (init_operation_info\<lparr>hw_support := True, hw_operation := FOREST, filter_flag := True\<rparr>)
       \<in> {LINREGR, LOGREGR}
   \<and> get_query_num (init_operation_info\<lparr>hw_support := True, hw_operation := FOREST, filter_flag := True\<rparr>) = Q6
   \<and> get_query_num (init_operation_info\<lparr>hw_support := True, hw_operation := FOREST, filter_flag := True\<rparr>)
       \<in> {Q1, Q2, Q3, Q4, Q5, Q6, Q7, Q8, Q9, Q10, Q11}"
  using C1_get_query_num_classes
          [of "init_operation_info\<lparr>hw_support := True, hw_operation := FOREST, filter_flag := True\<rparr>"
              "init_operation_info\<lparr>hw_support := True, hw_operation := FOREST, filter_flag := True\<rparr>"]
  by (simp add: get_query_num_def init_operation_info_def op_defs FOREST_def Q_defs)

section \<open>Query feature extractor\<close>

lemma hw_strcmp_eq: "hw_strcmp a b = (a = b)"
  by (induction a b rule: hw_strcmp.induct) auto



text \<open>
  The bound of 21 passes is reached: on the single token \<^verbatim>\<open>GROUP_BY\<close> the index
  never advances, and a budget of 20 passes is used up.
\<close>

lemma extract_fuel_20_group_by:
  "extract_fuel 20 u [''GROUP_BY''] 0 0 0 init_operation_info = None"
  by (simp add: extract_fuel.simps extract_step_def word_at_def hw_queryhashmap_def
        hw_strcmp_eq cluster_defs op_defs eval_nat_numeral)


text \<open>
  C5 at a failing input.  The tokenizer splits the clause \<^verbatim>\<open>GROUP BY\<close> at the blank
  into the words \<^verbatim>\<open>GROUP\<close> and \<^verbatim>\<open>BY\<close>; the cluster table knows only the single
  word \<^verbatim>\<open>GROUP_BY\<close>, so the branch that clears \<^verbatim>\<open>hw_support\<close> is never taken and the
  profile of the statement below, tokenized and extracted as in \<^verbatim>\<open>sw_stack_for_hw\<close>,
  stays supported.
\<close>

lemma tokenize_group_by_query:
  "tokenize ''SELECT madlib.linregr_predict(ARRAY[1, a, b], ARRAY[1, x, y]) FROM model, data GROUP BY x;''
     = Some [''SELECT'', ''madlib.linregr_predict'', ''ARRAY'', ''1'', ''a'', ''b'',
             ''ARRAY'', ''1'', ''x'', ''y'', ''FROM'', ''model'', ''data'', ''GROUP'', ''BY'', ''x'']"
  by code_simp

theorem C5_group_by_stays_supported:
  "map_option hw_support
     (tokenize ''SELECT madlib.linregr_predict(ARRAY[1, a, b], ARRAY[1, x, y]) FROM model, data GROUP BY x;''
        \<bind> (\<lambda>word_array. extract_operation_info u word_array init_operation_info))
     = Some True"
  unfolding tokenize_group_by_query
  by (simp add: extract_operation_info_def extract_loop.simps extract_step_def word_at_def
        hw_queryhashmap_def hw_strcmp_eq select_case_def from_case_def hw_ophashmap_def
        col_clause_def strcpy_name_def MAX_NAME_LEN_def cluster_defs op_defs
        init_operation_info_def Let_def)

text \<open>
  A statement that calls \<^verbatim>\<open>madlib.forest_predict\<close> is given the operation code of the
  logistic regression and, without filter and aggregate, the class Q5.
\<close>

lemma tokenize_forest_query:
  "tokenize ''SELECT madlib.forest_predict(ARRAY[1, a, b], ARRAY[1, x, y]) FROM model, data;''
     = Some [''SELECT'', ''madlib.forest_predict'', ''ARRAY'', ''1'', ''a'', ''b'',
             ''ARRAY'', ''1'', ''x'', ''y'', ''FROM'', ''model'', ''data'']"
  by code_simp

lemma forest_statement_class:
  "map_option (\<lambda>info. (hw_support info, hw_operation info, get_query_num info))
     (tokenize ''SELECT madlib.forest_predict(ARRAY[1, a, b], ARRAY[1, x, y]) FROM model, data;''
        \<bind> (\<lambda>word_array. extract_operation_info u word_array init_operation_info))
     = Some (True, LOGREGR, Q5)"
  unfolding tokenize_forest_query
  by (simp add: extract_operation_info_def extract_loop.simps extract_step_def word_at_def
        hw_queryhashmap_def hw_strcmp_eq select_case_def from_case_def hw_ophashmap_def
        col_clause_def strcpy_name_def MAX_NAME_LEN_def cluster_defs op_defs FOREST_def
        init_operation_info_def get_query_num_def Let_def)

section \<open>Table statistics probe\<close>

text \<open>
  C7: for a relation that was opened and whose first segment file of the main fork
  has \<open>st_size\<close> bytes, with \<open>first\<close> the maximum offset number of block 0: when the
  file holds exactly one page of 8192 bytes the estimate of \<^verbatim>\<open>get_data_num\<close> is
  \<open>first\<close>; when it holds more than one page and \<open>last\<close> is the maximum offset number
  of its last block, the estimate is \<open>first * (totalPages - 1) + last\<close>.  The second
  component is the page count stored through \<^verbatim>\<open>page_num\<close>.
\<close>

theorem C7_row_count_estimate:
  assumes "0 \<le> st_size" and "pages 0 = Some first_items"
  shows "(st_size sdiv 8192 = 1 \<longrightarrow>
            get_data_num True (StatOk st_size) pages = Inr (real first_items, 1))
       \<and> (1 < st_size sdiv 8192 \<and> pages (st_size sdiv 8192 - 1) = Some last_items \<longrightarrow>
            get_data_num True (StatOk st_size) pages
              = Inr (real first_items * (real_of_int (st_size sdiv 8192) - 1) + real last_items,
                     real_of_int (st_size sdiv 8192)))"
  using assms by (auto simp: get_data_num_def read_max_offset_def Let_def)

theorem C7_row_count_estimate_witness:
  "(0::int) \<le> 24576
   \<and> (\<lambda>b::int. if b = 0 then Some (100::nat) else if b = 2 then Some 40 else None) 0 = Some 100
   \<and> (1::int) < 24576 sdiv 8192
   \<and> get_data_num True (StatOk 24576)
        (\<lambda>b. if b = 0 then Some 100 else if b = 2 then Some 40 else None) = Inr (240, 3)"
  using C7_row_count_estimate
          [of 24576 "\<lambda>b. if b = 0 then Some 100 else if b = 2 then Some 40 else None" 100 40]
  by simp

section \<open>Hardware cost estimator\<close>

lemmas hw_const_defs =
  PAGE_SIZE_def UNIT_DATABASE_SIZE_def USER_TOTAL_LUT_def USER_TOTAL_FF_def
  USER_TOTAL_URAM_def USER_TOTAL_BRAM_def USER_TOTAL_DSP_def USER_CLOCK_def
  SMARTSSD_CORE_VAR_LUT_def SMARTSSD_CORE_VAR_FF_def SMARTSSD_CORE_VAR_URAM_def
  SMARTSSD_CORE_VAR_BRAM_def SMARTSSD_CORE_VAR_DSP_def SMARTSSD_CORE_CONST_LUT_def
  SMARTSSD_CORE_CONST_FF_def SMARTSSD_CORE_CONST_URAM_def SMARTSSD_CORE_CONST_BRAM_def
  SMARTSSD_CORE_CONST_DSP_def SMARTSSD_DATABASE_SIZE_STD_0_def
  SMARTSSD_DATABASE_SIZE_STD_1_def SMARTSSD_DATABASE_SIZE_STD_2_def
  SMARTSSD_DATABASE_SIZE_STD_3_def SMARTSSD_DATABASE_SIZE_STD_4_def
  SMARTSSD_OUTBUF_SIZE_STD_0_def SMARTSSD_OUTBUF_SIZE_STD_1_def

lemma user_corenum_value: "user_corenum = 2"
  by (simp add: user_corenum_def Let_def hw_const_defs upt_rec)

lemma user_database_size_1: "user_database_size 1 = 16384"
  by (simp add: user_database_size_def c_trunc_def)

lemma host_iteration_1: "host_iteration 1 = 0"
  by (simp add: host_iteration_def user_database_size_1 hw_const_defs)

lemma user_lastdatabase_size_1: "user_lastdatabase_size 1 = 16384"
  by (simp add: user_lastdatabase_size_def host_iteration_1 user_database_size_1)

lemma page_iteration_1: "page_iteration 1 = 2"
  by (simp add: page_iteration_def host_iteration_1 user_database_size_1 hw_const_defs)

lemma host_total_addressmap_latency_1:
  "host_total_addressmap_latency 1 = HOST_ADDRESSMAP_LATENCY"
  by (simp add: host_total_addressmap_latency_def host_iteration_1 to_double_def)

lemma host_total_setkernel_latency_1:
  "host_total_setkernel_latency 1 = HOST_SETKERNEL_LATENCY"
  by (simp add: host_total_setkernel_latency_def host_iteration_1 to_double_def)

lemma host_total_createbuffer_latency_1:
  "host_total_createbuffer_latency 1 = HOST_CREATEBUF_LATENCY_4"
  by (simp add: host_total_createbuffer_latency_def host_iteration_1 host_createbuffer_latency_def
        user_lastdatabase_size_1 Let_def hw_const_defs to_double_def)

lemma host_total_ssd2fpga_latency_1:
  "host_total_ssd2fpga_latency 1 = (16384 / SMARTSSD_SSD2FPGA_EFFBW_4) * 1000"
  by (simp add: host_total_ssd2fpga_latency_def host_iteration_1 user_ssd2fpga_effbw_def
        user_lastdatabase_size_1 Let_def hw_const_defs to_double_def)

lemma user_outbuffer_size_1:
  "user_outbuffer_size q 1 = (if aggregate_query q then 4096 else 2048)"
  by (simp add: user_outbuffer_size_def host_iteration_1 c_trunc_def to_double_def)

lemma host_total_fpga2host_latency_1:
  "host_total_fpga2host_latency q 1
     = ((if aggregate_query q then 4096 else 2048) / SMARTSSD_FPGA2HOST_EFFBW_1) * 1000"
  by (simp add: host_total_fpga2host_latency_def host_iteration_1 user_fpga2host_effbw_def
        user_outbuffer_size_1 Let_def hw_const_defs to_double_def)

lemma user_total_com_cycle_1:
  "user_total_com_cycle q ds 1 = fst (user_unit_cycle ds q) * 2"
  by (simp add: user_total_com_cycle_def host_iteration_1 page_iteration_1 Let_def)

lemma user_total_dma_cycle_1:
  "user_total_dma_cycle q ds 1
     = (if aggregate_query q then snd (user_unit_cycle ds q) else snd (user_unit_cycle ds q) * 2)"
  by (simp add: user_total_dma_cycle_def host_iteration_1 page_iteration_1 Let_def)

text \<open>
  C8: for a page count of 1, every query number \<open>q\<close> and every dataset \<open>ds\<close>, the number
  of full host iterations is 0, and each summand of the estimate is its last-iteration
  term alone: address mapping and kernel set-up are charged once, buffer creation is
  the constant of the smallest size tier, the transfer from storage uses the bandwidth
  of the smallest size tier on the 16384 bytes of the remainder, the transfer to the
  host uses the bandwidth of the smaller output-buffer tier, and the compute and DMA
  cycle counts are the unit counts times the 2 pages of the remainder (the unit count
  itself for the DMA cycles of an aggregate query).
\<close>

theorem C8_single_page_estimate:
  "host_iteration 1 = 0
   \<and> host_total_addressmap_latency 1 = HOST_ADDRESSMAP_LATENCY
   \<and> host_total_setkernel_latency 1 = HOST_SETKERNEL_LATENCY
   \<and> host_total_createbuffer_latency 1 = HOST_CREATEBUF_LATENCY_4
   \<and> host_total_ssd2fpga_latency 1 = (16384 / SMARTSSD_SSD2FPGA_EFFBW_4) * 1000
   \<and> host_total_fpga2host_latency q 1
        = ((if aggregate_query q then 4096 else 2048) / SMARTSSD_FPGA2HOST_EFFBW_1) * 1000
   \<and> user_total_com_cycle q ds 1 = fst (user_unit_cycle ds q) * page_iteration 1
   \<and> user_total_dma_cycle q ds 1
        = (if aggregate_query q then snd (user_unit_cycle ds q)
           else snd (user_unit_cycle ds q) * page_iteration 1)
   \<and> get_hw_expectation_time q ds 1
        = HOST_CREATEBUF_LATENCY_4 + HOST_ADDRESSMAP_LATENCY
          + (16384 / SMARTSSD_SSD2FPGA_EFFBW_4) * 1000 + HOST_SETKERNEL_LATENCY
          + user_total_kernel_latency q ds 1 + user_total_kernel_latency q ds 1 * 0.041
          + ((if aggregate_query q then 4096 else 2048) / SMARTSSD_FPGA2HOST_EFFBW_1) * 1000"
  by (simp only: host_iteration_1 host_total_addressmap_latency_1 host_total_setkernel_latency_1
        host_total_createbuffer_latency_1 host_total_ssd2fpga_latency_1
        host_total_fpga2host_latency_1 user_total_com_cycle_1 user_total_dma_cycle_1
        page_iteration_1 get_hw_expectation_time_def Let_def simp_thms)

text \<open>
  The estimate for the first query class on the widest dataset, as a number: the
  kernel runs \<open>5522 * 2 / 2\<close> compute and \<open>703 * 2 / 2\<close> DMA cycles at 170 MHz.
\<close>

lemma user_total_kernel_latency_Q1_HIGGS_1:
  "user_total_kernel_latency Q1 HIGGS 1 = (5522 / 170000000) * 1000 + (703 / 170000000) * 1000"
  by (simp add: user_total_kernel_latency_def user_total_com_cycle_1 user_total_dma_cycle_1
        user_corenum_value user_unit_cycle_def switch_query_def higgs_cycles_def
        aggregate_query_def Q_defs HIGGS_def Let_def to_double_def USER_CLOCK_def)

section \<open>Offload decision\<close>

text \<open>
  C4, as stated: a decision is declined exactly when the buckets hold fewer than 3
  samples.  In the sample set below every bucket holds 3 samples, none fewer, and no
  decision is made.
\<close>

theorem C4_three_samples_no_decision:
  "data1_len three_sample_set = 3 \<and> data2_len three_sample_set = 3
   \<and> data3_len three_sample_set = 3
   \<and> cost_predictor three_sample_set Q1 5 3000 1 = None"
  by (simp add: cost_predictor_def ADJ_MIN_DATANUM_def three_sample_set_def)

text \<open>
  C4, amended: no decision is made exactly when at least one of the three buckets of
  the class holds 3 samples or fewer (the test is \<open>length > ADJ_MIN_DATANUM\<close> on each
  of the three lengths); in every other case the predictor computes the CPU time as
  the cubic of the bucket that covers \<open>rows / 1000\<close> and the hardware time as
  \<^verbatim>\<open>get_hw_expectation_time\<close> of the class, the dataset category and the page count,
  chooses the CPU when its time is strictly lower and the hardware otherwise, and
  reports the ratio of the two times.
\<close>

theorem C4_decision:
  "(cost_predictor s q col_len row_count page_count = None
      \<longleftrightarrow> data1_len s \<le> 3 \<or> data2_len s \<le> 3 \<or> data3_len s \<le> 3)
   \<and> (3 < data1_len s \<and> 3 < data2_len s \<and> 3 < data3_len s \<longrightarrow>
        cost_predictor s q col_len row_count page_count
          = Some \<lparr> new_exec_time_predict = cpu_cost_approximation s (row_count / 1000),
                   hw_expectation_time = get_hw_expectation_time q (dataset_num col_len) page_count,
                   chosen = (if cpu_cost_approximation s (row_count / 1000)
                                  < get_hw_expectation_time q (dataset_num col_len) page_count
                             then USE_CPU else USE_HW),
                   cpu_hw_ratio = cpu_cost_approximation s (row_count / 1000)
                                    / get_hw_expectation_time q (dataset_num col_len) page_count \<rparr>)"
  by (auto simp: cost_predictor_def ADJ_MIN_DATANUM_def Let_def)

lemma not_aggregate_query_Q1: "\<not> aggregate_query Q1"
  by (simp add: aggregate_query_def Q_defs)

lemma user_total_kernel_latency_Q1_WILT_1:
  "user_total_kernel_latency Q1 WILT 1 = (5087 / 170000000) * 1000 + (884 / 170000000) * 1000"
  by (simp add: user_total_kernel_latency_def user_total_com_cycle_1 user_total_dma_cycle_1
        user_corenum_value user_unit_cycle_def switch_query_def wilt_cycles_def
        aggregate_query_def Q_defs HIGGS_def FOREST_def WILT_def Let_def to_double_def
        USER_CLOCK_def)

lemma get_hw_expectation_time_Q1_WILT_1:
  "get_hw_expectation_time Q1 WILT 1
     = 2.842 + 0.44 + (16384 / 493921239.04) * 1000 + 0.08
       + ((5087 / 170000000) * 1000 + (884 / 170000000) * 1000)
       + ((5087 / 170000000) * 1000 + (884 / 170000000) * 1000) * 0.041
       + (2048 / 311385128.96) * 1000"
  by (simp add: get_hw_expectation_time_def host_total_createbuffer_latency_1
        host_total_addressmap_latency_1 host_total_ssd2fpga_latency_1
        host_total_setkernel_latency_1 host_total_fpga2host_latency_1
        user_total_kernel_latency_Q1_WILT_1 not_aggregate_query_Q1 Let_def
        HOST_CREATEBUF_LATENCY_4_def HOST_ADDRESSMAP_LATENCY_def
        HOST_SETKERNEL_LATENCY_def SMARTSSD_SSD2FPGA_EFFBW_4_def SMARTSSD_FPGA2HOST_EFFBW_1_def)

theorem C4_decision_witness:
  "3 < data1_len four_sample_set \<and> 3 < data2_len four_sample_set \<and> 3 < data3_len four_sample_set
   \<and> map_option new_exec_time_predict (cost_predictor four_sample_set Q1 5 2000 1) = Some 2
   \<and> map_option chosen (cost_predictor four_sample_set Q1 5 2000 1) = Some USE_CPU"
  using C4_decision[of four_sample_set Q1 5 2000 1]
  by (simp add: four_sample_set_def cpu_cost_approximation_def polyval_def EXEC_ORDER_def
        dataset_num_def upt_rec get_hw_expectation_time_Q1_WILT_1)

section \<open>Insertion of a new observation\<close>

lemma shift_up_nth:
  "i + k < length a \<Longrightarrow>
   \<exists>a'. shift_up i k a = Some a' \<and> length a' = length a
        \<and> (\<forall>m < length a. a' ! m = (if i < m \<and> m \<le> i + k then a ! (m - 1) else a ! m))"
proof (induction k arbitrary: a)
  case 0
  then show ?case by simp
next
  case (Suc k)
  let ?b = "a[i + k + 1 := a ! (i + k)]"
  have "i + k < length ?b" using Suc.prems by simp
  from Suc.IH[OF this] obtain a' where a': "shift_up i k ?b = Some a'" "length a' = length ?b"
    "\<forall>m < length ?b. a' ! m = (if i < m \<and> m \<le> i + k then ?b ! (m - 1) else ?b ! m)"
    by blast
  have "shift_up i (Suc k) a = Some a'" using Suc.prems a'(1) by simp
  moreover have "length a' = length a" using a'(2) by simp
  moreover have "\<forall>m < length a. a' ! m = (if i < m \<and> m \<le> i + Suc k then a ! (m - 1) else a ! m)"
  proof (intro allI impI)
    fix m assume m: "m < length a"
    then have "a' ! m = (if i < m \<and> m \<le> i + k then ?b ! (m - 1) else ?b ! m)"
      using a'(3) by simp
    then show "a' ! m = (if i < m \<and> m \<le> i + Suc k then a ! (m - 1) else a ! m)"
      using m Suc.prems by (auto simp: nth_list_update)
  qed
  ultimately show ?case by blast
qed

lemma find_first_index:
  "find P [0..<n] = Some i \<Longrightarrow> i < n \<and> P i \<and> (\<forall>j<i. \<not> P j)"
  by (auto simp: find_Some_iff)

lemma find_no_index:
  "find P [0..<n] = None \<longleftrightarrow> (\<forall>j<n. \<not> P j)"
  by (auto simp: find_None_iff)

lemma insert_take:
  assumes "i < len" "len < length a" "shift_up i (len - i) a = Some a'"
  shows "take (len + 1) (a'[i := v]) = take i (take len a) @ [v] @ drop i (take len a)"
proof -
  have ik: "i + (len - i) < length a" using assms by simp
  from shift_up_nth[OF ik] assms(3) have la: "length a' = length a"
    and nth: "\<forall>m < length a. a' ! m = (if i < m \<and> m \<le> i + (len - i) then a ! (m - 1) else a ! m)"
    by auto
  show ?thesis
  proof (rule nth_equalityI)
    show "length (take (len + 1) (a'[i := v])) = length (take i (take len a) @ [v] @ drop i (take len a))"
      using assms la by simp
  next
    fix m assume "m < length (take (len + 1) (a'[i := v]))"
    then have m: "m < len + 1" using assms la by simp
    then have ml: "m < length a" using assms by simp
    show "take (len + 1) (a'[i := v]) ! m = (take i (take len a) @ [v] @ drop i (take len a)) ! m"
    proof (cases "m < i")
      case True
      then show ?thesis using m ml nth assms la by (simp add: nth_append)
    next
      case False
      show ?thesis
      proof (cases "m = i")
        case True
        then show ?thesis using m ml assms la by (simp add: nth_append)
      next
        case False
        with \<open>\<not> m < i\<close> have gt: "i < m" by simp
        then have "a' ! m = a ! (m - 1)" using nth ml m assms by simp
        moreover have "(take i (take len a) @ [v] @ drop i (take len a)) ! m = a ! (m - 1)"
          using gt m assms by (simp add: nth_append min_def) 
        ultimately show ?thesis using m gt assms la by simp
      qed
    qed
  qed
qed

lemma sorted_insert_at:
  assumes "sorted xs" "i < length xs" "\<forall>j<i. xs ! j < (v::real)" "v \<le> xs ! i"
  shows "sorted (take i xs @ [v] @ drop i xs)"
proof -
  have s1: "sorted (take i xs)" and s2: "sorted (drop i xs)"
    using assms(1) by simp_all
  have lo: "\<forall>x \<in> set (take i xs). x \<le> v"
  proof
    fix x assume "x \<in> set (take i xs)"
    then obtain j where "j < i" "x = xs ! j"
      using assms(2) by (auto simp: in_set_conv_nth)
    then show "x \<le> v" using assms(3) by auto
  qed
  have hi: "\<forall>y \<in> set (drop i xs). v \<le> y"
  proof
    fix y assume "y \<in> set (drop i xs)"
    then obtain j where j: "j < length xs - i" "y = xs ! (i + j)"
      by (auto simp: in_set_conv_nth)
    then have "xs ! i \<le> xs ! (i + j)"
      using assms(1) by (simp add: sorted_nth_mono)
    then show "v \<le> y" using assms(4) j by simp
  qed
  have "\<forall>x \<in> set (take i xs). \<forall>y \<in> set (drop i xs). x \<le> y"
    using lo hi by fastforce
  then show ?thesis
    using s1 s2 lo hi by (simp add: sorted_append)
qed

lemma bucket_insert_beyond:
  assumes "len \<le> length num" "len \<le> length time" "\<forall>x \<in> set (take len num). x < v"
  shows "bucket_insert num time len v t = Some (num, time, len)"
proof -
  have "\<forall>j<len. \<not> v \<le> num ! j"
  proof (intro allI impI)
    fix j assume "j < len"
    then have "num ! j \<in> set (take len num)" using assms(1) by (auto simp: in_set_conv_nth intro!: exI[of _ j])
    then show "\<not> v \<le> num ! j" using assms(3) by auto
  qed
  then have "find (\<lambda>i. num ! i \<ge> v) [0..<len] = None"
    using find_no_index[of "\<lambda>i. num ! i \<ge> v" len] by simp
  then show ?thesis using assms by (simp add: bucket_insert_def)
qed

text \<open>
  What one insertion loop does to its bucket, in the three cases of the new size: it
  equals a stored size, it equals none and lies below one, or it lies above all.
\<close>

lemma bucket_insert_new:
  assumes "len < length num" "len < length time" "sorted (take len num)"
    and "v \<notin> set (take len num)" "x \<in> set (take len num)" "v < x"
  shows "\<exists>i<len. v < num ! i \<and> (\<forall>j<i. num ! j < v)
           \<and> (\<exists>num' time'. bucket_insert num time len v t = Some (num', time', len + 1)
                \<and> length num' = length num \<and> length time' = length time
                \<and> take (len + 1) num' = take i num @ v # drop i (take len num)
                \<and> take (len + 1) time' = take i time @ t # drop i (take len time))"
proof -
  from assms(5) obtain k where k: "k < len" "num ! k = x"
    using assms(1) by (auto simp: in_set_conv_nth)
  then have "\<not> (\<forall>j<len. \<not> v \<le> num ! j)" using assms(6) by auto
  then obtain i where Some: "find (\<lambda>i. num ! i \<ge> v) [0..<len] = Some i"
    using find_no_index[of "\<lambda>i. num ! i \<ge> v" len] by (cases "find (\<lambda>i. num ! i \<ge> v) [0..<len]") auto
  from find_first_index[OF Some] have i: "i < len" "v \<le> num ! i" "\<forall>j<i. num ! j < v"
    by (auto simp: not_le)
  have "num ! i \<in> set (take len num)"
    using i(1) assms(1) by (auto simp: in_set_conv_nth intro!: exI[of _ i])
  then have ne: "num ! i \<noteq> v" using assms(4) by auto
  then have lt: "v < num ! i" using i(2) by simp
  have ik: "i + (len - i) < length num" "i + (len - i) < length time"
    using i assms by simp_all
  from shift_up_nth[OF ik(1)] obtain num' where n': "shift_up i (len - i) num = Some num'"
    "length num' = length num" by blast
  from shift_up_nth[OF ik(2)] obtain time' where t': "shift_up i (len - i) time = Some time'"
    "length time' = length time" by blast
  have res: "bucket_insert num time len v t = Some (num'[i := v], time'[i := t], len + 1)"
    using assms Some ne n' t' by (simp add: bucket_insert_def)
  have "take (len + 1) (num'[i := v]) = take i (take len num) @ [v] @ drop i (take len num)"
    using insert_take[OF i(1) assms(1) n'(1)] .
  then have tn: "take (len + 1) (num'[i := v]) = take i num @ v # drop i (take len num)"
    using i(1) by (simp add: min_def)
  have "take (len + 1) (time'[i := t]) = take i (take len time) @ [t] @ drop i (take len time)"
    using insert_take[OF i(1) assms(2) t'(1)] .
  then have tt: "take (len + 1) (time'[i := t]) = take i time @ t # drop i (take len time)"
    using i(1) by (simp add: min_def)
  show ?thesis
    using i(1) lt i(3) res n'(2) t'(2) tn tt by (intro exI[of _ i]) auto
qed

lemma bucket_insert_cases:
  assumes fits: "len \<le> length num" "len \<le> length time"
    and srt: "sorted (take len num)"
    and room: "v \<notin> set (take len num) \<and> (\<exists>x\<in>set (take len num). v < x)
                 \<longrightarrow> len < length num \<and> len < length time"
  shows "\<exists>num' time' len'.
           bucket_insert num time len v t = Some (num', time', len')
         \<and> sorted (take len' num')
         \<and> (v \<in> set (take len num) \<longrightarrow>
              (\<exists>i<len. num ! i = v \<and> (\<forall>j<i. num ! j < v)
                 \<and> num' = num \<and> time' = time[i := (time ! i + t) / 2] \<and> len' = len))
         \<and> (v \<notin> set (take len num) \<and> (\<exists>x\<in>set (take len num). v < x) \<longrightarrow>
              (\<exists>i<len. v < num ! i \<and> (\<forall>j<i. num ! j < v)
                 \<and> len' = len + 1
                 \<and> take len' num' = take i num @ v # drop i (take len num)
                 \<and> take len' time' = take i time @ t # drop i (take len time)))
         \<and> ((\<forall>x\<in>set (take len num). x < v) \<longrightarrow> num' = num \<and> time' = time \<and> len' = len)"
proof -
  consider (known) "v \<in> set (take len num)"
    | (new) "v \<notin> set (take len num)" "\<exists>x\<in>set (take len num). v < x"
    | (beyond) "\<forall>x\<in>set (take len num). x < v"
    by (metis not_less_iff_gr_or_eq)
  then show ?thesis
  proof cases
    case known
    then obtain k where k: "k < len" "num ! k = v"
      using fits(1) by (auto simp: in_set_conv_nth)
    then have "\<not> (\<forall>j<len. \<not> v \<le> num ! j)" by auto
    then obtain i where Some: "find (\<lambda>i. num ! i \<ge> v) [0..<len] = Some i"
      using find_no_index[of "\<lambda>i. num ! i \<ge> v" len] by (cases "find (\<lambda>i. num ! i \<ge> v) [0..<len]") auto
    from find_first_index[OF Some] have i: "i < len" "v \<le> num ! i" "\<forall>j<i. num ! j < v"
      by (auto simp: not_le)
    have "i \<le> k" using i(3) k by (metis not_le_imp_less order_less_irrefl)
    then have "take len num ! i \<le> take len num ! k"
      using srt k fits(1) by (intro sorted_nth_mono) simp_all
    then have "num ! i \<le> v" using i k by simp
    then have eq: "num ! i = v" using i by simp
    have res: "bucket_insert num time len v t = Some (num, time[i := (time ! i + t) / 2], len)"
      using Some eq fits by (simp add: bucket_insert_def)
    have nb: "\<not> (\<forall>x\<in>set (take len num). x < v)" using known by auto
    show ?thesis
      using res srt known nb i(1) eq i(3) by auto
  next
    case new
    then obtain x where x: "x \<in> set (take len num)" "v < x" by blast
    have rm: "len < length num" "len < length time" using room new by auto
    from bucket_insert_new[OF rm srt new(1) x, of t]
    obtain i num' time' where i: "i < len" "v < num ! i" "\<forall>j<i. num ! j < v"
      and res: "bucket_insert num time len v t = Some (num', time', len + 1)"
      and tk: "take (len + 1) num' = take i num @ v # drop i (take len num)"
              "take (len + 1) time' = take i time @ t # drop i (take len time)"
      by blast
    have "sorted (take i (take len num) @ [v] @ drop i (take len num))"
    proof (rule sorted_insert_at)
      show "sorted (take len num)" by fact
      show "i < length (take len num)" using i rm by simp
      show "\<forall>j<i. take len num ! j < v" using i by simp
      show "v \<le> take len num ! i" using i by simp
    qed
    then have s': "sorted (take (len + 1) num')"
      using tk(1) i(1) by (simp add: min_def)
    have nb: "\<not> (\<forall>x\<in>set (take len num). x < v)" using x by force
    show ?thesis
      using res s' new nb i tk by auto
  next
    case beyond
    have res: "bucket_insert num time len v t = Some (num, time, len)"
      using bucket_insert_beyond[OF fits beyond] .
    have "v \<notin> set (take len num)" using beyond by auto
    moreover have "\<not> (\<exists>x\<in>set (take len num). v < x)" using beyond by force
    ultimately show ?thesis
      using res srt by auto
  qed
qed

text \<open>
  The insertion step of \<^verbatim>\<open>add_new_data\<close> in a sample set with room.  Let the three
  buckets be sorted ascending by size, let slot 0 of the second and of the third size
  array exist, and let the bucket that the step selects for the new size \<open>v\<close> (the
  first bucket if \<open>v\<close> is at most the first size of the second bucket, else the second
  bucket if \<open>v\<close> is at most the first size of the third bucket, else the third bucket)
  have its recorded length within its two arrays, and a free slot in both arrays in
  case \<open>v\<close> equals none of its sizes and lies below one of them.  Then the step
  succeeds, changes the selected bucket only, and leaves all three buckets sorted
  ascending by size.  In the selected bucket:
    \<^item> if \<open>v\<close> equals a stored size, the time of the first entry of that size becomes
      the mean of the stored time and the new time \<open>t\<close>, and no entry is added;
    \<^item> if \<open>v\<close> equals no stored size and lies below one, the observation is inserted
      before the first entry of a larger size: the bucket has one entry more, and its
      sizes and times are the former ones with \<open>v\<close> and \<open>t\<close> at that position;
    \<^item> if \<open>v\<close> lies above all stored sizes, the bucket is unchanged.
\<close>

lemma add_new_data_insert_step:
  assumes "sorted (take (data1_len s) (data_num1 s))"
    and "sorted (take (data2_len s) (data_num2 s))"
    and "sorted (take (data3_len s) (data_num3 s))"
    and "data_num2 s \<noteq> []" and "data_num3 s \<noteq> []"
    and "selected_bucket s v = (num, time, len)"
    and "len \<le> length num" and "len \<le> length time"
    and "v \<notin> set (take len num) \<and> (\<exists>x\<in>set (take len num). v < x)
           \<longrightarrow> len < length num \<and> len < length time"
  shows "\<exists>num' time' len' s'.
           add_new_data_insert s v t = Some s'
         \<and> s' = with_selected_bucket s v (num', time', len')
         \<and> sorted (take (data1_len s') (data_num1 s'))
         \<and> sorted (take (data2_len s') (data_num2 s'))
         \<and> sorted (take (data3_len s') (data_num3 s'))
         \<and> (v \<in> set (take len num) \<longrightarrow>
              (\<exists>i<len. num ! i = v \<and> (\<forall>j<i. num ! j < v)
                 \<and> num' = num \<and> time' = time[i := (time ! i + t) / 2] \<and> len' = len))
         \<and> (v \<notin> set (take len num) \<and> (\<exists>x\<in>set (take len num). v < x) \<longrightarrow>
              (\<exists>i<len. v < num ! i \<and> (\<forall>j<i. num ! j < v)
                 \<and> len' = len + 1
                 \<and> take len' num' = take i num @ v # drop i (take len num)
                 \<and> take len' time' = take i time @ t # drop i (take len time)))
         \<and> ((\<forall>x\<in>set (take len num). x < v) \<longrightarrow> num' = num \<and> time' = time \<and> len' = len)"
proof -
  from bucket_insert_cases[OF assms(7) assms(8) _ assms(9), of t]
  have step: "sorted (take len num) \<Longrightarrow> \<exists>num' time' len'.
           bucket_insert num time len v t = Some (num', time', len')
         \<and> sorted (take len' num')
         \<and> (v \<in> set (take len num) \<longrightarrow>
              (\<exists>i<len. num ! i = v \<and> (\<forall>j<i. num ! j < v)
                 \<and> num' = num \<and> time' = time[i := (time ! i + t) / 2] \<and> len' = len))
         \<and> (v \<notin> set (take len num) \<and> (\<exists>x\<in>set (take len num). v < x) \<longrightarrow>
              (\<exists>i<len. v < num ! i \<and> (\<forall>j<i. num ! j < v)
                 \<and> len' = len + 1
                 \<and> take len' num' = take i num @ v # drop i (take len num)
                 \<and> take len' time' = take i time @ t # drop i (take len time)))
         \<and> ((\<forall>x\<in>set (take len num). x < v) \<longrightarrow> num' = num \<and> time' = time \<and> len' = len)"
    by simp
  consider (near) "v \<le> data_num2 s ! 0"
    | (mid) "\<not> v \<le> data_num2 s ! 0" "v \<le> data_num3 s ! 0"
    | (far) "\<not> v \<le> data_num2 s ! 0" "\<not> v \<le> data_num3 s ! 0"
    by blast
  then show ?thesis
  proof cases
    case near
    then have b: "num = data_num1 s" "time = exec_time1 s" "len = data1_len s"
      using assms(6) by (simp_all add: selected_bucket_def)
    from step assms(1) b obtain num' time' len' where
      r: "bucket_insert num time len v t = Some (num', time', len')" "sorted (take len' num')"
      and c: "v \<in> set (take len num) \<longrightarrow>
              (\<exists>i<len. num ! i = v \<and> (\<forall>j<i. num ! j < v)
                 \<and> num' = num \<and> time' = time[i := (time ! i + t) / 2] \<and> len' = len)"
         "v \<notin> set (take len num) \<and> (\<exists>x\<in>set (take len num). v < x) \<longrightarrow>
              (\<exists>i<len. v < num ! i \<and> (\<forall>j<i. num ! j < v)
                 \<and> len' = len + 1
                 \<and> take len' num' = take i num @ v # drop i (take len num)
                 \<and> take len' time' = take i time @ t # drop i (take len time))"
         "(\<forall>x\<in>set (take len num). x < v) \<longrightarrow> num' = num \<and> time' = time \<and> len' = len"
      by blast
    let ?s' = "with_selected_bucket s v (num', time', len')"
    have s': "?s' = s\<lparr>data_num1 := num', exec_time1 := time', data1_len := len'\<rparr>"
      using near by (simp add: with_selected_bucket_def)
    have res: "add_new_data_insert s v t = Some ?s'"
      using near assms(4,5) r(1) b s' by (simp add: add_new_data_insert_def)
    have "sorted (take (data1_len ?s') (data_num1 ?s'))"
      "sorted (take (data2_len ?s') (data_num2 ?s'))"
      "sorted (take (data3_len ?s') (data_num3 ?s'))"
      using s' r(2) assms(2,3) by simp_all
    then show ?thesis
      using res c by blast
  next
    case mid
    then have b: "num = data_num2 s" "time = exec_time2 s" "len = data2_len s"
      using assms(6) by (simp_all add: selected_bucket_def)
    from step assms(2) b obtain num' time' len' where
      r: "bucket_insert num time len v t = Some (num', time', len')" "sorted (take len' num')"
      and c: "v \<in> set (take len num) \<longrightarrow>
              (\<exists>i<len. num ! i = v \<and> (\<forall>j<i. num ! j < v)
                 \<and> num' = num \<and> time' = time[i := (time ! i + t) / 2] \<and> len' = len)"
         "v \<notin> set (take len num) \<and> (\<exists>x\<in>set (take len num). v < x) \<longrightarrow>
              (\<exists>i<len. v < num ! i \<and> (\<forall>j<i. num ! j < v)
                 \<and> len' = len + 1
                 \<and> take len' num' = take i num @ v # drop i (take len num)
                 \<and> take len' time' = take i time @ t # drop i (take len time))"
         "(\<forall>x\<in>set (take len num). x < v) \<longrightarrow> num' = num \<and> time' = time \<and> len' = len"
      by blast
    let ?s' = "with_selected_bucket s v (num', time', len')"
    have s': "?s' = s\<lparr>data_num2 := num', exec_time2 := time', data2_len := len'\<rparr>"
      using mid by (simp add: with_selected_bucket_def)
    have res: "add_new_data_insert s v t = Some ?s'"
      using mid assms(4,5) r(1) b s' by (simp add: add_new_data_insert_def)
    have "sorted (take (data1_len ?s') (data_num1 ?s'))"
      "sorted (take (data2_len ?s') (data_num2 ?s'))"
      "sorted (take (data3_len ?s') (data_num3 ?s'))"
      using s' r(2) assms(1,3) by simp_all
    then show ?thesis
      using res c by blast
  next
    case far
    then have b: "num = data_num3 s" "time = exec_time3 s" "len = data3_len s"
      using assms(6) by (simp_all add: selected_bucket_def)
    from step assms(3) b obtain num' time' len' where
      r: "bucket_insert num time len v t = Some (num', time', len')" "sorted (take len' num')"
      and c: "v \<in> set (take len num) \<longrightarrow>
              (\<exists>i<len. num ! i = v \<and> (\<forall>j<i. num ! j < v)
                 \<and> num' = num \<and> time' = time[i := (time ! i + t) / 2] \<and> len' = len)"
         "v \<notin> set (take len num) \<and> (\<exists>x\<in>set (take len num). v < x) \<longrightarrow>
              (\<exists>i<len. v < num ! i \<and> (\<forall>j<i. num ! j < v)
                 \<and> len' = len + 1
                 \<and> take len' num' = take i num @ v # drop i (take len num)
                 \<and> take len' time' = take i time @ t # drop i (take len time))"
         "(\<forall>x\<in>set (take len num). x < v) \<longrightarrow> num' = num \<and> time' = time \<and> len' = len"
      by blast
    let ?s' = "with_selected_bucket s v (num', time', len')"
    have s': "?s' = s\<lparr>data_num3 := num', exec_time3 := time', data3_len := len'\<rparr>"
      using far by (simp add: with_selected_bucket_def)
    have res: "add_new_data_insert s v t = Some ?s'"
      using far assms(4,5) r(1) b s' by (simp add: add_new_data_insert_def)
    have "sorted (take (data1_len ?s') (data_num1 ?s'))"
      "sorted (take (data2_len ?s') (data_num2 ?s'))"
      "sorted (take (data3_len ?s') (data_num3 ?s'))"
      using s' r(2) assms(1,2) by simp_all
    then show ?thesis
      using res c by blast
  qed
qed

lemma three_sample_set_sorted:
  "sorted (take (data1_len three_sample_set) (data_num1 three_sample_set))"
  "sorted (take (data2_len three_sample_set) (data_num2 three_sample_set))"
  "sorted (take (data3_len three_sample_set) (data_num3 three_sample_set))"
  "data_num2 three_sample_set \<noteq> []" "data_num3 three_sample_set \<noteq> []"
  by (simp_all add: three_sample_set_def eval_nat_numeral)

lemma three_sample_set_selected:
  "selected_bucket three_sample_set 5 = ([3, 4, 6, 0, 0], [30, 40, 60, 0, 0], 3)"
  "selected_bucket three_sample_set 4 = ([3, 4, 6, 0, 0], [30, 40, 60, 0, 0], 3)"
  by (simp_all add: selected_bucket_def three_sample_set_def)

text \<open>
  The step at work in a sample set of three buckets of three samples: the observation
  of size 5 is inserted between the sizes 4 and 6 of the second bucket, and the
  observation of size 4 is averaged into the entry of size 4.
\<close>

lemma add_new_data_insert_step_example:
  "sorted (take (data1_len three_sample_set) (data_num1 three_sample_set))
   \<and> sorted (take (data2_len three_sample_set) (data_num2 three_sample_set))
   \<and> sorted (take (data3_len three_sample_set) (data_num3 three_sample_set))
   \<and> selected_bucket three_sample_set 5 = ([3, 4, 6, 0, 0], [30, 40, 60, 0, 0], 3)
   \<and> (5::real) \<notin> set (take 3 [3, 4, 6, 0, 0]) \<and> (6::real) \<in> set (take 3 [3, 4, 6, 0, 0])
   \<and> (\<exists>num' time'.
         add_new_data_insert three_sample_set 5 50
           = Some (three_sample_set\<lparr>data_num2 := num', exec_time2 := time', data2_len := 4\<rparr>)
         \<and> take 4 num' = [3, 4, 5, 6] \<and> take 4 time' = [30, 40, 50, 60])
   \<and> selected_bucket three_sample_set 4 = ([3, 4, 6, 0, 0], [30, 40, 60, 0, 0], 3)
   \<and> (4::real) \<in> set (take 3 [3, 4, 6, 0, 0])
   \<and> add_new_data_insert three_sample_set 4 50
       = Some (three_sample_set\<lparr>exec_time2 := [30, 45, 60, 0, 0]\<rparr>)"
proof -
  have mem: "(5::real) \<notin> set (take 3 [3, 4, 6, 0, 0])" "(6::real) \<in> set (take 3 [3, 4, 6, 0, 0])"
    "(4::real) \<in> set (take 3 [3, 4, 6, 0, 0])"
    by (simp_all add: eval_nat_numeral)
  have idx: "\<And>i. i < (3::nat) \<Longrightarrow> i = 0 \<or> i = 1 \<or> i = 2"
    by auto
  have "\<exists>num' time' len' s'.
           add_new_data_insert three_sample_set 5 50 = Some s'
         \<and> s' = with_selected_bucket three_sample_set 5 (num', time', len')
         \<and> (\<exists>i<3. (5::real) < [3, 4, 6, 0, 0] ! i
                 \<and> len' = 3 + 1
                 \<and> take len' num' = take i [3, 4, 6, 0, 0] @ 5 # drop i (take 3 [3, 4, 6, 0, 0])
                 \<and> take len' time' = take i [30, 40, 60, 0, 0] @ 50 # drop i (take 3 [30, 40, 60, 0, 0]))"
    using add_new_data_insert_step[OF three_sample_set_sorted three_sample_set_selected(1), of 50] mem
    by fastforce
  then obtain num' time' i where
    r: "add_new_data_insert three_sample_set 5 50
          = Some (with_selected_bucket three_sample_set 5 (num', time', 4))"
    and i: "i < 3" "(5::real) < [3, 4, 6, 0, 0] ! i"
    and tk: "take 4 num' = take i [3, 4, 6, 0, 0] @ 5 # drop i (take 3 [3, 4, 6, 0, 0])"
            "take 4 time' = take i [30, 40, 60, 0, 0] @ 50 # drop i (take 3 [30, 40, 60, 0, 0])"
    by auto
  have "i = 2"
    using idx[OF i(1)] i(2) by auto
  then have tk': "take 4 num' = [3, 4, 5, 6]" "take 4 time' = [30, 40, 50, 60]"
    using tk by (simp_all add: eval_nat_numeral)
  have "with_selected_bucket three_sample_set 5 (num', time', 4)
          = three_sample_set\<lparr>data_num2 := num', exec_time2 := time', data2_len := 4\<rparr>"
    by (simp add: with_selected_bucket_def three_sample_set_def)
  then have new: "\<exists>num' time'.
         add_new_data_insert three_sample_set 5 50
           = Some (three_sample_set\<lparr>data_num2 := num', exec_time2 := time', data2_len := 4\<rparr>)
         \<and> take 4 num' = [3, 4, 5, 6] \<and> take 4 time' = [30, 40, 50, 60]"
    using r tk' by auto
  have "\<exists>num' time' len' s'.
           add_new_data_insert three_sample_set 4 50 = Some s'
         \<and> s' = with_selected_bucket three_sample_set 4 (num', time', len')
         \<and> (\<exists>i<3. [3, 4, 6, 0, 0] ! i = (4::real)
                 \<and> num' = [3, 4, 6, 0, 0]
                 \<and> time' = [30, 40, 60, 0, 0][i := ([30, 40, 60, 0, 0] ! i + 50) / 2] \<and> len' = 3)"
    using add_new_data_insert_step[OF three_sample_set_sorted three_sample_set_selected(2), of 50] mem
    by fastforce
  then obtain time' k where
    r4: "add_new_data_insert three_sample_set 4 50
          = Some (with_selected_bucket three_sample_set 4 ([3, 4, 6, 0, 0], time', 3))"
    and k: "k < 3" "[3, 4, 6, 0, 0] ! k = (4::real)"
    and t4: "time' = [30, 40, 60, 0, 0][k := ([30, 40, 60, 0, 0] ! k + 50) / 2]"
    by auto
  have "k = 1"
    using idx[OF k(1)] k(2) by auto
  then have "time' = [30, 45, 60, 0, 0]"
    using t4 by simp
  then have known: "add_new_data_insert three_sample_set 4 50
       = Some (three_sample_set\<lparr>exec_time2 := [30, 45, 60, 0, 0]\<rparr>)"
    using r4 by (simp add: with_selected_bucket_def three_sample_set_def)
  show ?thesis
    using three_sample_set_sorted(1,2,3) three_sample_set_selected mem new known by simp
qed

text \<open>
  A new size is compared with the sizes of the selected bucket only.  The sample set
  below satisfies the invariant of a sample set, its buckets are sorted, and its
  second bucket starts with the size 5 and the time 50.  For the observation of size
  5 and time 70 the step selects the first bucket, because 5 is at most the first
  size of the second bucket; no size of the first bucket reaches 5, so nothing is
  written: the time stored with the size 5 stays 50, and the observation is kept
  nowhere.
\<close>

lemma equal_size_in_other_bucket_not_averaged:
  "sample_set_ok gap_sample_set
   \<and> sorted (take (data1_len gap_sample_set) (data_num1 gap_sample_set))
   \<and> sorted (take (data2_len gap_sample_set) (data_num2 gap_sample_set))
   \<and> sorted (take (data3_len gap_sample_set) (data_num3 gap_sample_set))
   \<and> 0 < data2_len gap_sample_set
   \<and> data_num2 gap_sample_set ! 0 = 5 \<and> exec_time2 gap_sample_set ! 0 = 50
   \<and> add_new_data_insert gap_sample_set 5 70 = Some gap_sample_set"
  by (simp add: sample_set_ok_def bucket_ok_def gap_sample_set_def add_new_data_insert_def
        bucket_insert_def upt_rec eval_nat_numeral)

text \<open>The shift of the entries from index \<open>i\<close> on in an array that the bucket fills.\<close>

lemma shift_up_full:
  "i + k = length a \<Longrightarrow> 0 < k \<Longrightarrow> shift_up i k a = None"
  by (cases k) simp_all

text \<open>
  C6 at its failing inputs.  The insertion loops have no test of the capacity of the
  arrays, and every insertion makes the recorded length grow.  Whenever the bucket
  that the step selects fills one of its two arrays, and the new size equals none of
  its sizes and lies below one of them, the shift of the entries writes past the last
  slot of that array (\<^verbatim>\<open>data_num1[j + 1] = data_num1[j]\<close> with \<open>j + 1\<close> the number of
  slots, line 3498): the step has no defined result, and the buckets are not left
  sorted as C6 requires, although they were sorted before.
\<close>

theorem C6_full_bucket_overflow:
  assumes "data_num2 s \<noteq> []" and "data_num3 s \<noteq> []"
    and "selected_bucket s v = (num, time, len)"
    and "len \<le> length num" and "len \<le> length time"
    and "len = length num \<or> len = length time"
    and "v \<notin> set (take len num)" and "x \<in> set (take len num)" and "v < x"
  shows "add_new_data_insert s v t = None"
proof -
  from assms(8) obtain k where k: "k < len" "num ! k = x"
    using assms(4) by (auto simp: in_set_conv_nth)
  then have "\<not> (\<forall>j<len. \<not> v \<le> num ! j)" using assms(9) by auto
  then obtain i where Some: "find (\<lambda>i. num ! i \<ge> v) [0..<len] = Some i"
    using find_no_index[of "\<lambda>i. num ! i \<ge> v" len] by (cases "find (\<lambda>i. num ! i \<ge> v) [0..<len]") auto
  from find_first_index[OF Some] have i: "i < len" "v \<le> num ! i"
    by auto
  have "num ! i \<in> set (take len num)"
    using i(1) assms(4) by (auto simp: in_set_conv_nth intro!: exI[of _ i])
  then have ne: "num ! i \<noteq> v" using assms(7) by auto
  have "shift_up i (len - i) num = None \<or> shift_up i (len - i) time = None"
    using assms(6) i(1) shift_up_full[of i "len - i"] by auto
  then have b: "bucket_insert num time len v t = None"
    using Some ne assms(4,5) by (auto simp: bucket_insert_def split: bind_splits)
  consider (near) "v \<le> data_num2 s ! 0"
    | (mid) "\<not> v \<le> data_num2 s ! 0" "v \<le> data_num3 s ! 0"
    | (far) "\<not> v \<le> data_num2 s ! 0" "\<not> v \<le> data_num3 s ! 0"
    by blast
  then show ?thesis
  proof cases
    case near
    then have "num = data_num1 s" "time = exec_time1 s" "len = data1_len s"
      using assms(3) by (simp_all add: selected_bucket_def)
    then show ?thesis
      using near assms(1,2) b by (simp add: add_new_data_insert_def)
  next
    case mid
    then have "num = data_num2 s" "time = exec_time2 s" "len = data2_len s"
      using assms(3) by (simp_all add: selected_bucket_def)
    then show ?thesis
      using mid assms(1,2) b by (simp add: add_new_data_insert_def)
  next
    case far
    then have "num = data_num3 s" "time = exec_time3 s" "len = data3_len s"
      using assms(3) by (simp_all add: selected_bucket_def)
    then show ?thesis
      using far assms(1,2) b by (simp add: add_new_data_insert_def)
  qed
qed

theorem C6_full_bucket_overflow_witness:
  "sorted (take (data1_len full_sample_set) (data_num1 full_sample_set))
   \<and> sorted (take (data2_len full_sample_set) (data_num2 full_sample_set))
   \<and> sorted (take (data3_len full_sample_set) (data_num3 full_sample_set))
   \<and> selected_bucket full_sample_set 3 = ([1, 2, 4], [10, 20, 40], 3)
   \<and> (3::nat) = length [1, 2, 4 :: real]
   \<and> (3::real) \<notin> set (take 3 [1, 2, 4]) \<and> (4::real) \<in> set (take 3 [1, 2, 4])
   \<and> add_new_data_insert full_sample_set 3 30 = None"
proof -
  have sel: "selected_bucket full_sample_set 3 = ([1, 2, 4], [10, 20, 40], 3)"
    by (simp add: selected_bucket_def full_sample_set_def)
  have ne: "data_num2 full_sample_set \<noteq> []" "data_num3 full_sample_set \<noteq> []"
    by (simp_all add: full_sample_set_def)
  have mem: "(3::real) \<notin> set (take 3 [1, 2, 4])" "(4::real) \<in> set (take 3 [1, 2, 4])"
    by simp_all
  have "add_new_data_insert full_sample_set 3 30 = None"
    using C6_full_bucket_overflow[OF ne sel _ _ _ mem, of 30] by simp
  then show ?thesis
    using sel mem by (simp add: full_sample_set_def)
qed

text \<open>The two insertions into the example sample set, computed.\<close>

lemma add_new_data_insert_new_size:
  "add_new_data_insert three_sample_set 5 50
     = Some (three_sample_set\<lparr>data_num2 := [3, 4, 5, 6, 0], exec_time2 := [30, 40, 50, 60, 0],
                               data2_len := 4\<rparr>)"
  by (simp add: add_new_data_insert_def bucket_insert_def three_sample_set_def upt_rec
        eval_nat_numeral)

lemma add_new_data_insert_known_size:
  "add_new_data_insert three_sample_set 4 50
     = Some (three_sample_set\<lparr>exec_time2 := [30, 45, 60, 0, 0]\<rparr>)"
  by (simp add: add_new_data_insert_def bucket_insert_def three_sample_set_def upt_rec
        eval_nat_numeral)

text \<open>
  C10: in a sample set that satisfies its invariant, an observation whose size is
  strictly greater than every size stored in the far bucket is inserted into no
  bucket: the insertion step returns the state as it was, with the sizes, times and
  lengths of all three buckets unchanged.
\<close>

theorem C10_size_beyond_far_bucket_dropped:
  assumes "sample_set_ok s"
    and "\<forall>x \<in> set (take (data3_len s) (data_num3 s)). x < v"
  shows "add_new_data_insert s v t = Some s"
proof -
  have b2: "0 < data2_len s" "data2_len s \<le> length (data_num2 s)"
      "sorted (take (data2_len s) (data_num2 s))"
    and b3: "0 < data3_len s" "data3_len s \<le> length (data_num3 s)"
      "length (exec_time3 s) = length (data_num3 s)"
    and link: "data_num2 s ! (data2_len s - 1) \<le> data_num3 s ! 0"
    using assms(1) by (simp_all add: sample_set_ok_def bucket_ok_def)
  have ne: "data_num2 s \<noteq> []" "data_num3 s \<noteq> []"
    using b2 b3 by auto
  have "data_num3 s ! 0 \<in> set (take (data3_len s) (data_num3 s))"
    using b3 by (auto simp: in_set_conv_nth intro!: exI[of _ 0])
  then have far0: "data_num3 s ! 0 < v"
    using assms(2) by blast
  have "take (data2_len s) (data_num2 s) ! 0 \<le> take (data2_len s) (data_num2 s) ! (data2_len s - 1)"
    using b2 by (intro sorted_nth_mono) simp_all
  then have "data_num2 s ! 0 \<le> data_num2 s ! (data2_len s - 1)"
    using b2 by simp
  then have mid0: "data_num2 s ! 0 < v"
    using link far0 by simp
  have "bucket_insert (data_num3 s) (exec_time3 s) (data3_len s) v t
          = Some (data_num3 s, exec_time3 s, data3_len s)"
    using b3 assms(2) by (intro bucket_insert_beyond) simp_all
  then show ?thesis
    using ne mid0 far0 by (simp add: add_new_data_insert_def)
qed

theorem C10_size_beyond_far_bucket_dropped_witness:
  "sample_set_ok three_sample_set
   \<and> list_all (\<lambda>x. x < 9) (take (data3_len three_sample_set) (data_num3 three_sample_set))
   \<and> add_new_data_insert three_sample_set 9 90 = Some three_sample_set"
proof -
  have ok: "sample_set_ok three_sample_set"
    by (simp add: sample_set_ok_def bucket_ok_def three_sample_set_def eval_nat_numeral)
  have far: "\<forall>x \<in> set (take (data3_len three_sample_set) (data_num3 three_sample_set)). x < 9"
    by (simp add: three_sample_set_def eval_nat_numeral)
  show ?thesis
    using ok far C10_size_beyond_far_bucket_dropped[OF ok far, of 90]
    by (simp add: list_all_iff)
qed

section \<open>Cubic least-squares fit\<close>

lemmas fit_defs = polyfit_def createProduct_def createTranspose_def MATRIX_VALUE_def MATRIX_STORE_def
  normalise_def reduce_row_def c_div_def Let_def upt_rec

text \<open>
  C2 at a failing input: four samples of the same size 1.  After the first column is
  eliminated the pivot of the second column is exactly 0; \<^verbatim>\<open>polyfit\<close> returns \<open>-4\<close>, and
  the coefficient array, which held 5, 5, 5, 5, holds the last column of the
  half-reduced system, each entry divided by its diagonal entry: 2 in the first slot
  and the result of \<open>0 / 0\<close> in the others.
\<close>

theorem C2_zero_pivot_overwrites_coefficients:
  "polyfit dz 4 [1, 1, 1, 1] [2, 2, 2, 2] 4 [5, 5, 5, 5] = (- 4, [2, dz 0, dz 0, dz 0])"
  by (simp add: fit_defs)

section \<open>Re-partitioning of two adjacent buckets\<close>

text \<open>
  The sum of the two error rates that a scan records never rises: a step is kept only
  when the sum falls, and neither move of the boundary touches the recorded rates.
\<close>

lemma step_kept_sum: "step_kept ml mr l r \<Longrightarrow> l + r < ml + mr"
  by (auto simp: step_kept_def split: if_splits)

lemma take_from_right_rates:
  "take_from_right st = Some st' \<Longrightarrow>
   min_left_error_rate st' = min_left_error_rate st \<and> min_right_error_rate st' = min_right_error_rate st"
  by (auto simp: take_from_right_def Let_def split: if_splits)

lemma give_to_right_rates:
  "give_to_right st = Some st' \<Longrightarrow>
   min_left_error_rate st' = min_left_error_rate st \<and> min_right_error_rate st' = min_right_error_rate st"
  by (auto simp: give_to_right_def Let_def split: if_splits bind_splits)

lemma scan_pass_rates:
  assumes f: "\<And>a b. forward a = Some b \<Longrightarrow>
                min_left_error_rate b = min_left_error_rate a \<and> min_right_error_rate b = min_right_error_rate a"
    and b: "\<And>a b. back a = Some b \<Longrightarrow>
                min_left_error_rate b = min_left_error_rate a \<and> min_right_error_rate b = min_right_error_rate a"
    and p: "scan_pass dz junk first_flag phase forward back stop rec st = Some (go_on, st')"
  shows "min_left_error_rate st' + min_right_error_rate st'
           \<le> min_left_error_rate st + min_right_error_rate st"
proof -
  from p obtain moved where m: "forward st = Some moved"
    by (cases "forward st") (simp_all add: scan_pass_def)
  obtain le ler lc where l: "get_avg_error dz (min_left_data_num moved) (min_left_exec_time moved) (left_len moved)
               (block (EXEC_ORDER + 1) (junk (LeftCoef phase rec))) first_flag = (le, ler, lc)"
    by (metis prod_cases3)
  obtain re rer rc where r: "get_avg_error dz (min_right_data_num moved) (min_right_exec_time moved) (right_len moved)
               (block (EXEC_ORDER + 1) (junk (RightCoef phase rec))) False = (re, rer, rc)"
    by (metis prod_cases3)
  show ?thesis
  proof (cases "step_kept (min_left_error_rate st) (min_right_error_rate st) ler rer")
    case True
    let ?kept = "moved\<lparr> min_left_error_rate := ler, min_right_error_rate := rer,
                                min_left_coef := lc, min_right_coef := rc,
                                min_left_len := left_len moved,
                                min_right_len := right_len moved \<rparr>"
    have lt: "ler + rer < min_left_error_rate st + min_right_error_rate st"
      using step_kept_sum[OF True] .
    have "st' = ?kept \<or> (\<exists>rolled. back ?kept = Some rolled \<and> st' = rolled\<lparr> min_coef_freed := True \<rparr>)"
      using p m l r True by (auto simp: scan_pass_def Let_def split: if_splits)
    then show ?thesis
      using lt b[of ?kept] by auto
  next
    case False
    then have "back moved = Some st'"
      using p m l r by (auto simp: scan_pass_def Let_def split: if_splits)
    then show ?thesis
      using b[of moved st'] f[OF m] by simp
  qed
qed

lemma scan_rates:
  assumes f: "\<And>a b. forward a = Some b \<Longrightarrow>
                min_left_error_rate b = min_left_error_rate a \<and> min_right_error_rate b = min_right_error_rate a"
    and b: "\<And>a b. back a = Some b \<Longrightarrow>
                min_left_error_rate b = min_left_error_rate a \<and> min_right_error_rate b = min_right_error_rate a"
  shows "scan dz junk first_flag phase forward back stop n rec st = Some st' \<Longrightarrow>
         min_left_error_rate st' + min_right_error_rate st'
           \<le> min_left_error_rate st + min_right_error_rate st"
proof (induction n arbitrary: rec st)
  case 0
  then show ?case by simp
next
  case (Suc n)
  from Suc.prems obtain go_on mid where
    p: "scan_pass dz junk first_flag phase forward back stop rec st = Some (go_on, mid)"
    by (cases "scan_pass dz junk first_flag phase forward back stop rec st") auto
  have one: "min_left_error_rate mid + min_right_error_rate mid
               \<le> min_left_error_rate st + min_right_error_rate st"
    using scan_pass_rates[OF f b p] .
  show ?case
  proof (cases go_on)
    case True
    then have "scan dz junk first_flag phase forward back stop n (Suc rec) mid = Some st'"
      using Suc.prems p by simp
    from Suc.IH[OF this] one show ?thesis by simp
  next
    case False
    then have "st' = mid" using Suc.prems p by simp
    then show ?thesis using one by simp
  qed
qed

text \<open>
  Hence the two error rates that \<^verbatim>\<open>adjust_range\<close> prints as its final result add up
  to at most the sum of the error rates of the initial fits of the two buckets as
  passed in.
\<close>

lemma adjust_range_error_rates_not_worse:
  assumes "adjust_range dz junk num1 num2 time1 time2 len1 len2 first_flag = Some res"
  shows "left_error_rate_printed res + right_error_rate_printed res
           \<le> fst (snd (get_avg_error dz num1 time1 len1 (block (EXEC_ORDER + 1) (junk DefLeftCoef)) first_flag))
             + fst (snd (get_avg_error dz num2 time2 len2 (block (EXEC_ORDER + 1) (junk DefRightCoef)) False))"
proof -
  obtain dle dler dlc where l: "get_avg_error dz num1 time1 len1 (block (EXEC_ORDER + 1) (junk DefLeftCoef)) first_flag = (dle, dler, dlc)"
    by (metis prod_cases3)
  obtain dre drer drc where r: "get_avg_error dz num2 time2 len2 (block (EXEC_ORDER + 1) (junk DefRightCoef)) False = (dre, drer, drc)"
    by (metis prod_cases3)
  let ?s1 = "scan_start junk 1 num1 num2 time1 time2 len1 len2 dler drer dlc drc"
  let ?s2 = "scan_start junk 2 num1 num2 time1 time2 len1 len2 dler drer dlc drc"
  from assms l r obtain p1 where p1: "scan dz junk first_flag 1 take_from_right give_to_right None len2 0 ?s1 = Some p1"
    by (cases "scan dz junk first_flag 1 take_from_right give_to_right None len2 0 ?s1") (simp_all add: adjust_range_def)
  from assms l r p1 obtain p2 where p2: "scan dz junk first_flag 2 give_to_right take_from_right (Some p1) len1 0 ?s2 = Some p2"
    by (cases "scan dz junk first_flag 2 give_to_right take_from_right (Some p1) len1 0 ?s2") (simp_all add: adjust_range_def)
  have res: "res = (if min_left_error_rate p1 + min_right_error_rate p1
                      < min_left_error_rate p2 + min_right_error_rate p2
                 then handed_back p1 else handed_back p2)"
    using assms l r p1 p2 by (simp add: adjust_range_def split: if_splits)
  have a1: "min_left_error_rate p1 + min_right_error_rate p1 \<le> dler + drer"
    using scan_rates[OF take_from_right_rates give_to_right_rates p1] by (simp add: scan_start_def Let_def)
  have a2: "min_left_error_rate p2 + min_right_error_rate p2 \<le> dler + drer"
    using scan_rates[OF give_to_right_rates take_from_right_rates p2] by (simp add: scan_start_def Let_def)
  show ?thesis
    using res a1 a2 l r by (auto simp: handed_back_def)
qed

text \<open>The evaluation of \<^verbatim>\<open>adjust_range\<close> on a left bucket of four and a right bucket of five samples.\<close>

lemma polyfit_def_left:
  "polyfit dz 4 [1, 2, 3, 4] [10, 10, 10, 20] 4 [0, 0, 0, 10] = (0, [5 / 3, - 10, 55 / 3, 0])"
  by (simp add: fit_defs)

lemma polyfit_def_right:
  "polyfit dz 5 [4, 5, 6, 7, 8] [20, 18, 24, 16, 5] 4 [0, 0, 0, 10]
     = (0, [- (11 / 12), 199 / 14, - (6019 / 84), 9617 / 70])"
  by (simp add: fit_defs)

lemma polyfit_phase1_left:
  "polyfit dz 5 [1, 2, 3, 4, 5, 0, 0, 0, 0] [10, 10, 10, 20, 18, 0, 0, 0, 0] 4 [0, 0, 0, 10]
     = (0, [- 1, 66 / 7, - (165 / 7), 128 / 5])"
  by (simp add: fit_defs)

lemma polyfit_phase1_right:
  "polyfit dz 4 [5, 6, 7, 8, 0, 0, 0, 0, 0] [18, 24, 16, 5, 0, 0, 0, 0, 0] 4 [0, 0, 0, 10]
     = (0, [11 / 6, - 40, 1675 / 6, - 607])"
  by (simp add: fit_defs)

lemma polyfit_phase2_left:
  "polyfit dz 3 [1, 2, 3, 0, 0, 0, 0, 0, 0] [10, 10, 10, 0, 0, 0, 0, 0, 0] 4 [0, 0, 0, 10]
     = (- 2, [0, 0, 0, 10])"
  by (simp add: polyfit_def)

lemma polyfit_phase2_right:
  "polyfit dz 6 [3, 4, 5, 6, 7, 8, 0, 0, 0] [10, 20, 18, 24, 16, 5, 0, 0, 0] 4 [0, 0, 0, 10]
     = (0, [- (7 / 36), 19 / 21, 1963 / 252, - (219 / 14)])"
  by (simp add: fit_defs)

lemmas gae_defs = get_avg_error_def polyval_def EXEC_ORDER_def c_div_def Let_def upt_rec

lemma gae_def_left:
  "get_avg_error dz [1, 2, 3, 4] [10, 10, 10, 20] 4 [0, 0, 0, 10] True = (0, 0, [5 / 3, - 10, 55 / 3, 0])"
  by (simp add: gae_defs polyfit_def_left)

lemma gae_def_right:
  "get_avg_error dz [4, 5, 6, 7, 8] [20, 18, 24, 16, 5] 5 [0, 0, 0, 10] False
     = (99 / 70, 913 / 105, [- (11 / 12), 199 / 14, - (6019 / 84), 9617 / 70])"
  by (simp add: gae_defs polyfit_def_right)

lemma gae_phase1_left:
  "get_avg_error dz [1, 2, 3, 4, 5, 0, 0, 0, 0] [10, 10, 10, 20, 18, 0, 0, 0, 0] 5 [0, 0, 0, 10] True
     = (256 / 175, 3904 / 315, [- 1, 66 / 7, - (165 / 7), 128 / 5])"
  by (simp add: gae_defs polyfit_phase1_left)

lemma gae_phase1_right:
  "get_avg_error dz [5, 6, 7, 8, 0, 0, 0, 0, 0] [18, 24, 16, 5, 0, 0, 0, 0, 0] 4 [0, 0, 0, 10] False
     = (0, 0, [11 / 6, - 40, 1675 / 6, - 607])"
  by (simp add: gae_defs polyfit_phase1_right)

lemma gae_phase2_left:
  "get_avg_error dz [1, 2, 3, 0, 0, 0, 0, 0, 0] [10, 10, 10, 0, 0, 0, 0, 0, 0] 3 [0, 0, 0, 10] True
     = (0, 0, [0, 0, 0, 10])"
  by (simp add: gae_defs polyfit_phase2_left)

lemma gae_phase2_right:
  "get_avg_error dz [3, 4, 5, 6, 7, 8, 0, 0, 0] [10, 20, 18, 24, 16, 5, 0, 0, 0] 6 [0, 0, 0, 10] False
     = (94 / 63, 34655 / 4536, [- (7 / 36), 19 / 21, 1963 / 252, - (219 / 14)])"
  by (simp add: gae_defs polyfit_phase2_right)

lemma scan_last_pass:
  "scan_pass dz junk first_flag phase forward back stop rec st = Some (False, st') \<Longrightarrow> 0 < n \<Longrightarrow>
   scan dz junk first_flag phase forward back stop n rec st = Some st'"
  by (cases n) simp_all

lemma scan_start_4_5:
  "scan_start junk_10 phase [1, 2, 3, 4] [4, 5, 6, 7, 8] [10, 10, 10, 20] [20, 18, 24, 16, 5] 4 5
     0 (913 / 105) [5 / 3, - 10, 55 / 3, 0] [- (11 / 12), 199 / 14, - (6019 / 84), 9617 / 70]
   = start4_5"
  by (simp add: scan_start_def start4_5_def junk_10_def block_def Let_def eval_nat_numeral)

lemma scan_pass_dropped:
  assumes "forward st = Some moved"
    and "get_avg_error dz (min_left_data_num moved) (min_left_exec_time moved) (left_len moved)
           (block (EXEC_ORDER + 1) (junk (LeftCoef phase rec))) first_flag = (le, ler, lc)"
    and "get_avg_error dz (min_right_data_num moved) (min_right_exec_time moved) (right_len moved)
           (block (EXEC_ORDER + 1) (junk (RightCoef phase rec))) False = (re, rer, rc)"
    and "\<not> step_kept (min_left_error_rate st) (min_right_error_rate st) ler rer"
    and "back moved = Some st'"
  shows "scan_pass dz junk first_flag phase forward back stop rec st = Some (False, st')"
  using assms by (simp add: scan_pass_def)

lemma scan_pass_kept_stopped:
  assumes "forward st = Some moved"
    and "get_avg_error dz (min_left_data_num moved) (min_left_exec_time moved) (left_len moved)
           (block (EXEC_ORDER + 1) (junk (LeftCoef phase rec))) first_flag = (le, ler, lc)"
    and "get_avg_error dz (min_right_data_num moved) (min_right_exec_time moved) (right_len moved)
           (block (EXEC_ORDER + 1) (junk (RightCoef phase rec))) False = (re, rer, rc)"
    and "step_kept (min_left_error_rate st) (min_right_error_rate st) ler rer"
    and "\<not> min_coef_freed st"
    and "early_stop (case stop of
                       None \<Rightarrow> moved\<lparr> min_left_error_rate := ler, min_right_error_rate := rer,
                                        min_left_coef := lc, min_right_coef := rc,
                                        min_left_len := left_len moved,
                                        min_right_len := right_len moved \<rparr>
                     | Some other \<Rightarrow> other)"
    and "back (moved\<lparr> min_left_error_rate := ler, min_right_error_rate := rer,
                       min_left_coef := lc, min_right_coef := rc,
                       min_left_len := left_len moved, min_right_len := right_len moved \<rparr>)
           = Some st'"
  shows "scan_pass dz junk first_flag phase forward back stop rec st
           = Some (False, st'\<lparr> min_coef_freed := True \<rparr>)"
  using assms by (simp add: scan_pass_def Let_def)

lemma block_junk_10: "block (EXEC_ORDER + 1) (junk_10 s) = [0, 0, 0, 10]"
  by (simp add: block_def junk_10_def EXEC_ORDER_def)

lemma phase1_pass:
  "scan_pass dz junk_10 True phase take_from_right give_to_right None 0 start4_5
     = Some (False, start4_5)"
proof (rule scan_pass_dropped)
  show "take_from_right start4_5 = Some moved5_4"
    by (simp add: take_from_right_def start4_5_def moved5_4_def Let_def eval_nat_numeral)
  show "get_avg_error dz (min_left_data_num moved5_4) (min_left_exec_time moved5_4) (left_len moved5_4)
          (block (EXEC_ORDER + 1) (junk_10 (LeftCoef phase 0))) True
        = (256 / 175, 3904 / 315, [- 1, 66 / 7, - (165 / 7), 128 / 5])"
    by (simp only: block_junk_10) (simp add: moved5_4_def gae_phase1_left)
  show "get_avg_error dz (min_right_data_num moved5_4) (min_right_exec_time moved5_4) (right_len moved5_4)
          (block (EXEC_ORDER + 1) (junk_10 (RightCoef phase 0))) False
        = (0, 0, [11 / 6, - 40, 1675 / 6, - 607])"
    by (simp only: block_junk_10) (simp add: moved5_4_def gae_phase1_right)
  show "\<not> step_kept (min_left_error_rate start4_5) (min_right_error_rate start4_5) (3904 / 315) 0"
    by (simp add: step_kept_def start4_5_def)
  show "give_to_right moved5_4 = Some start4_5"
    by (simp add: give_to_right_def start4_5_def moved5_4_def Let_def eval_nat_numeral)
qed

lemma phase2_pass:
  "scan_pass dz junk_10 True phase give_to_right take_from_right (Some start4_5) 0 start4_5
     = Some (False, back3_6)"
proof -
  have "scan_pass dz junk_10 True phase give_to_right take_from_right (Some start4_5) 0 start4_5
          = Some (False, (back3_6\<lparr> min_coef_freed := False \<rparr>)\<lparr> min_coef_freed := True \<rparr>)"
  proof (rule scan_pass_kept_stopped)
    show "give_to_right start4_5 = Some moved3_6"
      by (simp add: give_to_right_def start4_5_def moved3_6_def Let_def eval_nat_numeral)
    show "get_avg_error dz (min_left_data_num moved3_6) (min_left_exec_time moved3_6) (left_len moved3_6)
            (block (EXEC_ORDER + 1) (junk_10 (LeftCoef phase 0))) True
          = (0, 0, [0, 0, 0, 10])"
      by (simp only: block_junk_10) (simp add: moved3_6_def gae_phase2_left)
    show "get_avg_error dz (min_right_data_num moved3_6) (min_right_exec_time moved3_6) (right_len moved3_6)
            (block (EXEC_ORDER + 1) (junk_10 (RightCoef phase 0))) False
          = (94 / 63, 34655 / 4536, [- (7 / 36), 19 / 21, 1963 / 252, - (219 / 14)])"
      by (simp only: block_junk_10) (simp add: moved3_6_def gae_phase2_right)
    show "step_kept (min_left_error_rate start4_5) (min_right_error_rate start4_5) 0 (34655 / 4536)"
      by (simp add: step_kept_def start4_5_def)
    show "\<not> min_coef_freed start4_5"
      by (simp add: start4_5_def)
    show "early_stop (case Some start4_5 of
                        None \<Rightarrow> moved3_6\<lparr> min_left_error_rate := 0,
                                   min_right_error_rate := 34655 / 4536,
                                   min_left_coef := [0, 0, 0, 10],
                                   min_right_coef := [- (7 / 36), 19 / 21, 1963 / 252, - (219 / 14)],
                                   min_left_len := left_len moved3_6,
                                   min_right_len := right_len moved3_6 \<rparr>
                      | Some other \<Rightarrow> other)"
      by (simp add: early_stop_def start4_5_def)
    show "take_from_right (moved3_6\<lparr> min_left_error_rate := 0,
                                   min_right_error_rate := 34655 / 4536,
                                   min_left_coef := [0, 0, 0, 10],
                                   min_right_coef := [- (7 / 36), 19 / 21, 1963 / 252, - (219 / 14)],
                                   min_left_len := left_len moved3_6,
                                   min_right_len := right_len moved3_6 \<rparr>)
            = Some (back3_6\<lparr> min_coef_freed := False \<rparr>)"
      by (simp add: take_from_right_def moved3_6_def back3_6_def Let_def eval_nat_numeral)
  qed
  then show ?thesis
    by (simp add: back3_6_def)
qed

text \<open>
  C3 at a failing input: a left bucket of four samples and a right bucket of five,
  whose first sample is the last one of the left bucket, with the value 0, 0, 0, 10 in
  the fresh coefficient blocks.  The step of the second scan leaves three samples in
  the left bucket; \<^verbatim>\<open>polyfit\<close> refuses them, the error of the left bucket is computed
  from the block as allocated and is 0, the error of the right bucket falls, and the
  step is kept.  The lengths handed back are 3 and 6, and the six slots of the right
  arrays that they cover end in a sample of size 0 and time 0 that was never observed.
  The test that ends the second scan releases the two coefficient blocks of the kept
  step, so the two coefficient pointers handed back dangle.
\<close>

theorem C3_left_bucket_of_three:
  "adjust_range dz junk_10 [1, 2, 3, 4] [4, 5, 6, 7, 8] [10, 10, 10, 20] [20, 18, 24, 16, 5] 4 5 True
     = Some \<lparr> left_data_num = [1, 2, 3, 4, 0, 0, 0, 0, 0],
              right_data_num = [4, 5, 6, 7, 8, 0, 0, 0, 0],
              left_exec_time = [10, 10, 10, 20, 0, 0, 0, 0, 0],
              right_exec_time = [20, 18, 24, 16, 5, 0, 0, 0, 0],
              left_coef = [0, 0, 0, 10],
              right_coef = [- (7 / 36), 19 / 21, 1963 / 252, - (219 / 14)],
              new_data1_len = 3, new_data2_len = 6,
              left_error_rate_printed = 0,
              right_error_rate_printed = 34655 / 4536,
              coef_freed = True \<rparr>"
proof -
  have p1: "scan dz junk_10 True 1 take_from_right give_to_right None 5 0 start4_5 = Some start4_5"
    by (rule scan_last_pass[OF phase1_pass]) simp
  have p2: "scan dz junk_10 True 2 give_to_right take_from_right (Some start4_5) 4 0 start4_5 = Some back3_6"
    by (rule scan_last_pass[OF phase2_pass]) simp
  have sums: "\<not> min_left_error_rate start4_5 + min_right_error_rate start4_5
               < min_left_error_rate back3_6 + min_right_error_rate back3_6"
    by (simp add: start4_5_def back3_6_def)
  have live: "\<not> min_coef_freed start4_5"
    by (simp add: start4_5_def)
  have "adjust_range dz junk_10 [1, 2, 3, 4] [4, 5, 6, 7, 8] [10, 10, 10, 20] [20, 18, 24, 16, 5] 4 5 True
          = Some (handed_back back3_6)"
    unfolding adjust_range_def block_junk_10 gae_def_left gae_def_right
    by (simp only: prod.case Let_def scan_start_4_5 p1 p2 bind.bind_lunit sums live if_False)
  then show ?thesis
    by (simp add: handed_back_def back3_6_def)
qed


end
